theory Spec2Isabelle
  imports Complex_Main
begin

section \<open>JavaScript values\<close>

text \<open>
  A JavaScript string is a sequence of UTF-16 code units. A code unit is modelled by its
  number, so that the whitespace class of \<open>trim\<close> and of the regular expression class
  \<open>\s\<close>, which reaches beyond ASCII, is the one of the language. \<open>lit\<close> turns an ASCII
  literal of the source into its code units.
\<close>

type_synonym jsstring = "nat list"

abbreviation lit :: "string \<Rightarrow> jsstring" where
  "lit s \<equiv> map of_char s"

text \<open>Truthiness of a string, and of \<open>string | null | undefined\<close>: the empty string is falsy.\<close>

definition truthy_str :: "jsstring \<Rightarrow> bool" where
  "truthy_str s = (s \<noteq> [])"

fun truthy_opt :: "jsstring option \<Rightarrow> bool" where
  "truthy_opt None = False"
| "truthy_opt (Some s) = truthy_str s"

text \<open>
  The class \<open>WhiteSpace\<close> plus \<open>LineTerminator\<close> of ECMAScript, which both
  \<open>String.prototype.trim\<close> and \<open>\s\<close> use: TAB, LF, VT, FF, CR, SP, NBSP, U+1680,
  U+2000 to U+200A, U+2028, U+2029, U+202F, U+205F, U+3000 and U+FEFF.
\<close>

definition is_ws :: "nat \<Rightarrow> bool" where
  "is_ws c = (c \<in> {9, 10, 11, 12, 13, 32, 160, 5760, 8232, 8233, 8239, 8287, 12288, 65279}
              \<or> (8192 \<le> c \<and> c \<le> 8202))"

definition trim :: "jsstring \<Rightarrow> jsstring" where
  "trim s = rev (dropWhile is_ws (rev (dropWhile is_ws s)))"


text \<open>
  A number is an IEEE double, kept by its value: a finite one by the rational number it
  is, an infinity by its sign (\<open>True\<close> for the negative one). Both zeros are \<open>Finite 0\<close>.
  A number that \<open>JSON.parse\<close> reads is kept by the decimal value of its digits; the
  arithmetic of the click handler rounds each result to the nearest double.
\<close>

datatype jsnumber = Finite rat | Infinite bool | NaN

fun truthy_num :: "jsnumber \<Rightarrow> bool" where
  "truthy_num (Finite q) = (q \<noteq> 0)"
| "truthy_num (Infinite _) = True"
| "truthy_num NaN = False"

subsection \<open>Arithmetic on doubles\<close>









text \<open>
  The values \<open>JSON.parse\<close> can return. An object keeps its members in insertion order.
\<close>

datatype json =
    JNull
  | JBool bool
  | JNum jsnumber
  | JStr jsstring
  | JArr "json list"
  | JObj "(jsstring \<times> json) list"

fun truthy_json :: "json \<Rightarrow> bool" where
  "truthy_json JNull = False"
| "truthy_json (JBool b) = b"
| "truthy_json (JNum n) = truthy_num n"
| "truthy_json (JStr s) = truthy_str s"
| "truthy_json (JArr _) = True"
| "truthy_json (JObj _) = True"

text \<open>
  What a \<open>catch\<close> clause can receive: an \<open>Error\<close> object with its message, or any other
  value (for which \<open>error instanceof Error\<close> is false).
\<close>

datatype thrown = ErrorObj jsstring | NonError

section \<open>JSON.parse\<close>

text \<open>
  \<open>JSON.parse\<close> belongs to the language, not to the repository: the functions of the
  service layer take it as an argument. \<open>JSON_parse\<close> is a model of it after the JSON
  grammar of ECMA-404, used where a sample text has to be parsed: whitespace is TAB, LF,
  CR and SP; a string has no raw control character and the eight short escapes and
  \<open>\\uXXXX\<close>; a number has no leading zero, digits after a point and digits in an
  exponent.
\<close>

definition json_ws :: "nat \<Rightarrow> bool" where
  "json_ws c = (c = 9 \<or> c = 10 \<or> c = 13 \<or> c = 32)"

definition skip_ws :: "jsstring \<Rightarrow> jsstring" where
  "skip_ws s = dropWhile json_ws s"

definition is_digit :: "nat \<Rightarrow> bool" where
  "is_digit c = (48 \<le> c \<and> c \<le> 57)"

definition hex_val :: "nat \<Rightarrow> nat option" where
  "hex_val c =
     (if 48 \<le> c \<and> c \<le> 57 then Some (c - 48)
      else if 65 \<le> c \<and> c \<le> 70 then Some (c - 55)
      else if 97 \<le> c \<and> c \<le> 102 then Some (c - 87)
      else None)"

definition escape_char :: "nat \<Rightarrow> nat option" where
  "escape_char e =
     (if e = 34 then Some 34
      else if e = 92 then Some 92
      else if e = 47 then Some 47
      else if e = 98 then Some 8
      else if e = 102 then Some 12
      else if e = 110 then Some 10
      else if e = 114 then Some 13
      else if e = 116 then Some 9
      else None)"

definition cons_fst :: "nat \<Rightarrow> (jsstring \<times> jsstring) option \<Rightarrow> (jsstring \<times> jsstring) option" where
  "cons_fst c r = (case r of None \<Rightarrow> None | Some (str, rest) \<Rightarrow> Some (c # str, rest))"

text \<open>The text after a backslash: the code unit it stands for and the rest.\<close>

definition lex_escape :: "jsstring \<Rightarrow> (nat \<times> jsstring) option" where
  "lex_escape s =
     (case s of
        [] \<Rightarrow> None
      | e # cs \<Rightarrow>
          if e = 117 then
            (case cs of
               h1 # h2 # h3 # h4 # rest \<Rightarrow>
                 (case (hex_val h1, hex_val h2, hex_val h3, hex_val h4) of
                    (Some a, Some b, Some c, Some d) \<Rightarrow>
                      Some (((a * 16 + b) * 16 + c) * 16 + d, rest)
                  | _ \<Rightarrow> None)
             | _ \<Rightarrow> None)
          else (case escape_char e of None \<Rightarrow> None | Some x \<Rightarrow> Some (x, cs)))"

lemma lex_escape_shrinks: "lex_escape s = Some (x, r) \<Longrightarrow> length r < length s"
  by (auto simp: lex_escape_def split: list.splits option.splits if_splits)

text \<open>The text after an opening quote: the string up to the closing quote and the rest.\<close>

function lex_string :: "jsstring \<Rightarrow> (jsstring \<times> jsstring) option" where
  "lex_string [] = None"
| "lex_string (c # cs) =
     (if c = 34 then Some ([], cs)
      else if c = 92 then
        (case lex_escape cs of
           None \<Rightarrow> None
         | Some (x, rest) \<Rightarrow> cons_fst x (lex_string rest))
      else if c < 32 then None
      else cons_fst c (lex_string cs))"
  by pat_completeness auto
termination
  by (relation "measure length") (auto dest: lex_escape_shrinks)

text \<open>
  A number keeps the exact value of its decimal text, except that a text beyond the
  range of a double is \<open>Infinity\<close> and a text that rounds to zero is zero, which is what
  truthiness sees; rounding to the nearest double is not modelled.
\<close>

definition digits_val :: "jsstring \<Rightarrow> nat" where
  "digits_val ds = foldl (\<lambda>acc d. acc * 10 + (d - 48)) 0 ds"

definition decimal_value :: "nat \<Rightarrow> int \<Rightarrow> rat" where
  "decimal_value m e = (if 0 \<le> e then of_nat m * 10 ^ nat e else of_nat m / 10 ^ nat (- e))"

definition to_number :: "bool \<Rightarrow> rat \<Rightarrow> jsnumber" where
  "to_number neg v =
     (if v \<ge> 2 ^ 1024 - 2 ^ 970 then Infinite neg
      else if v \<le> 1 / 2 ^ 1075 then Finite 0
      else Finite (if neg then - v else v))"

definition lex_number :: "jsstring \<Rightarrow> (jsnumber \<times> jsstring) option" where
  "lex_number s =
     (let neg = (s \<noteq> [] \<and> hd s = 45);
          s1 = (if neg then tl s else s);
          ip = (if s1 \<noteq> [] \<and> hd s1 = 48 then [48] else takeWhile is_digit s1);
          s2 = drop (length ip) s1
      in if ip = [] then None
         else
           let has_frac = (s2 \<noteq> [] \<and> hd s2 = 46);
               fp = (if has_frac then takeWhile is_digit (tl s2) else []);
               s3 = (if has_frac then drop (length fp) (tl s2) else s2)
           in if has_frac \<and> fp = [] then None
              else
                let has_exp = (s3 \<noteq> [] \<and> (hd s3 = 101 \<or> hd s3 = 69));
                    s4 = (if has_exp then tl s3 else s3);
                    eneg = (has_exp \<and> s4 \<noteq> [] \<and> hd s4 = 45);
                    s5 = (if has_exp \<and> s4 \<noteq> [] \<and> (hd s4 = 45 \<or> hd s4 = 43) then tl s4 else s4);
                    ep = (if has_exp then takeWhile is_digit s5 else []);
                    s6 = drop (length ep) s5
                in if has_exp \<and> ep = [] then None
                   else
                     let e = (if eneg then - int (digits_val ep) else int (digits_val ep))
                             - int (length fp)
                     in Some (to_number neg (decimal_value (digits_val (ip @ fp)) e), s6))"

text \<open>
  Members are kept in the order of the text; a repeated key keeps its first place and
  takes the last value (the reordering of integer-like keys is not modelled).
\<close>

fun object_put :: "jsstring \<Rightarrow> json \<Rightarrow> (jsstring \<times> json) list \<Rightarrow> (jsstring \<times> json) list" where
  "object_put k v [] = [(k, v)]"
| "object_put k v ((k', v') # ms) =
     (if k' = k then (k, v) # ms else (k', v') # object_put k v ms)"

definition build_object :: "(jsstring \<times> json) list \<Rightarrow> (jsstring \<times> json) list" where
  "build_object ms = foldl (\<lambda>acc (k, v). object_put k v acc) [] ms"

text \<open>
  Recursive descent: a value, the elements of an array after its first bracket, the
  members of an object after its first brace. Each returns what it parsed and the rest of
  the text.
\<close>

function parse_value :: "jsstring \<Rightarrow> (json \<times> jsstring) option"
  and parse_elements :: "jsstring \<Rightarrow> (json list \<times> jsstring) option"
  and parse_members :: "jsstring \<Rightarrow> ((jsstring \<times> json) list \<times> jsstring) option" where
  "parse_value s =
     (case skip_ws s of
        [] \<Rightarrow> None
      | c # cs \<Rightarrow>
          if c = 123 then
            (case skip_ws cs of
               [] \<Rightarrow> None
             | d # ds \<Rightarrow>
                 if d = 125 then Some (JObj [], ds)
                 else (case parse_members (d # ds) of
                         None \<Rightarrow> None
                       | Some (ms, r) \<Rightarrow> Some (JObj (build_object ms), r)))
          else if c = 91 then
            (case skip_ws cs of
               [] \<Rightarrow> None
             | d # ds \<Rightarrow>
                 if d = 93 then Some (JArr [], ds)
                 else (case parse_elements (d # ds) of
                         None \<Rightarrow> None
                       | Some (vs, r) \<Rightarrow> Some (JArr vs, r)))
          else if c = 34 then
            (case lex_string cs of None \<Rightarrow> None | Some (str, r) \<Rightarrow> Some (JStr str, r))
          else if take 4 (c # cs) = lit ''true'' then Some (JBool True, drop 4 (c # cs))
          else if take 5 (c # cs) = lit ''false'' then Some (JBool False, drop 5 (c # cs))
          else if take 4 (c # cs) = lit ''null'' then Some (JNull, drop 4 (c # cs))
          else (case lex_number (c # cs) of
                  None \<Rightarrow> None
                | Some (n, r) \<Rightarrow> Some (JNum n, r)))"
| "parse_elements s =
     (case parse_value s of
        None \<Rightarrow> None
      | Some (v, r) \<Rightarrow>
          (case skip_ws r of
             [] \<Rightarrow> None
           | d # ds \<Rightarrow>
               if d = 44 then
                 (case parse_elements ds of
                    None \<Rightarrow> None
                  | Some (vs, r') \<Rightarrow> Some (v # vs, r'))
               else if d = 93 then Some ([v], ds)
               else None))"
| "parse_members s =
     (case skip_ws s of
        [] \<Rightarrow> None
      | q # qs \<Rightarrow>
          if q \<noteq> 34 then None
          else (case lex_string qs of
                  None \<Rightarrow> None
                | Some (k, r0) \<Rightarrow>
                    (case skip_ws r0 of
                       [] \<Rightarrow> None
                     | colon # r1 \<Rightarrow>
                         if colon \<noteq> 58 then None
                         else (case parse_value r1 of
                                 None \<Rightarrow> None
                               | Some (v, r) \<Rightarrow>
                                   (case skip_ws r of
                                      [] \<Rightarrow> None
                                    | d # ds \<Rightarrow>
                                        if d = 44 then
                                          (case parse_members ds of
                                             None \<Rightarrow> None
                                           | Some (ms, r') \<Rightarrow> Some ((k, v) # ms, r'))
                                        else if d = 125 then Some ([(k, v)], ds)
                                        else None)))))"
  by pat_completeness auto

lemma length_skip_ws: "length (skip_ws s) \<le> length s"
  by (simp add: skip_ws_def length_dropWhile_le)

lemma skip_ws_Cons_length: "skip_ws s = c # cs \<Longrightarrow> length cs < length s"
  using length_skip_ws[of s] by simp

lemma cons_fst_Some: "cons_fst c x = Some (str, r) \<Longrightarrow> \<exists>str'. x = Some (str', r)"
  by (cases x) (auto simp: cons_fst_def)

lemma lex_string_shrinks: "lex_string s = Some (str, r) \<Longrightarrow> length r < length s"
proof (induction s arbitrary: str r rule: lex_string.induct)
  case 1
  then show ?case by simp
next
  case (2 c cs)
  show ?case
  proof (cases "c = 34")
    case True
    with "2.prems" show ?thesis by simp
  next
    case False
    show ?thesis
    proof (cases "c = 92")
      case c92: True
      with False "2.prems" obtain x rest where
        e: "lex_escape cs = Some (x, rest)" and r: "cons_fst x (lex_string rest) = Some (str, r)"
        by (auto split: option.splits)
      from r obtain str' where "lex_string rest = Some (str', r)"
        by (auto dest: cons_fst_Some)
      with "2.IH"(1)[OF False c92 e refl] have "length r < length rest" by simp
      with lex_escape_shrinks[OF e] show ?thesis by simp
    next
      case n92: False
      with False "2.prems" have c: "\<not> c < 32" and r: "cons_fst c (lex_string cs) = Some (str, r)"
        by (auto split: if_splits)
      from r obtain str' where "lex_string cs = Some (str', r)"
        by (auto dest: cons_fst_Some)
      with "2.IH"(2)[OF False n92 c] have "length r < length cs" by simp
      then show ?thesis by simp
    qed
  qed
qed

lemma lex_number_shrinks:
  assumes "lex_number s = Some (n, r)"
  shows "length r < length s"
proof -
  define s1 where "s1 = (if s \<noteq> [] \<and> hd s = 45 then tl s else s)"
  define ip where "ip = (if s1 \<noteq> [] \<and> hd s1 = 48 then [48] else takeWhile is_digit s1)"
  define s2 where "s2 = drop (length ip) s1"
  define fp where "fp = (if s2 \<noteq> [] \<and> hd s2 = 46 then takeWhile is_digit (tl s2) else [])"
  define s3 where "s3 = (if s2 \<noteq> [] \<and> hd s2 = 46 then drop (length fp) (tl s2) else s2)"
  define has_exp where "has_exp = (s3 \<noteq> [] \<and> (hd s3 = 101 \<or> hd s3 = 69))"
  define s4 where "s4 = (if has_exp then tl s3 else s3)"
  define s5 where "s5 = (if has_exp \<and> s4 \<noteq> [] \<and> (hd s4 = 45 \<or> hd s4 = 43) then tl s4 else s4)"
  define ep where "ep = (if has_exp then takeWhile is_digit s5 else [])"
  from assms have ip: "ip \<noteq> []" and r: "r = drop (length ep) s5"
    unfolding lex_number_def Let_def s1_def[symmetric] ip_def[symmetric] s2_def[symmetric]
      fp_def[symmetric] s3_def[symmetric] has_exp_def[symmetric] s4_def[symmetric]
      s5_def[symmetric] ep_def[symmetric]
    by (auto split: if_splits)
  have 1: "length s1 \<le> length s" by (simp add: s1_def)
  have "length ip \<le> length s1"
    by (cases s1) (auto simp: ip_def length_takeWhile_le)
  with ip have 2: "length s2 < length s1" by (cases ip) (simp_all add: s2_def)
  have 3: "length s3 \<le> length s2" by (simp add: s3_def)
  have 4: "length s4 \<le> length s3" by (simp add: s4_def)
  have 5: "length s5 \<le> length s4" by (simp add: s5_def)
  have 6: "length r \<le> length s5" by (simp add: r)
  from 1 2 3 4 5 6 show ?thesis by linarith
qed

lemma skip_ws_Cons_le: "skip_ws s = c # cs \<Longrightarrow> Suc (length cs) \<le> length s"
  using length_skip_ws[of s] by simp

lemma parse_shrinks_dom:
  "parse_value_parse_elements_parse_members_dom (Inl s) \<Longrightarrow>
     (\<forall>v r. parse_value s = Some (v, r) \<longrightarrow> length r < length s)"
  "parse_value_parse_elements_parse_members_dom (Inr (Inl s1)) \<Longrightarrow>
     (\<forall>vs r. parse_elements s1 = Some (vs, r) \<longrightarrow> length r < length s1)"
  "parse_value_parse_elements_parse_members_dom (Inr (Inr s2)) \<Longrightarrow>
     (\<forall>ms r. parse_members s2 = Some (ms, r) \<longrightarrow> length r < length s2)"
proof (induct rule: parse_value_parse_elements_parse_members.pinduct)
  case (1 s)
  show ?case
  proof (intro allI impI)
    fix v r assume p: "parse_value s = Some (v, r)"
    from p obtain c cs where sk: "skip_ws s = c # cs"
      by (auto simp: parse_value.psimps[OF 1(1)] split: list.splits)
    note le = skip_ws_Cons_le[OF sk]
    show "length r < length s"
    proof (cases "c = 123")
      case True
      with p sk obtain d ds where sk2: "skip_ws cs = d # ds"
        by (auto simp: parse_value.psimps[OF 1(1)] split: list.splits)
      note le2 = skip_ws_Cons_le[OF sk2]
      show ?thesis
      proof (cases "d = 125")
        case d: True
        with p sk sk2 True have "r = ds" by (simp add: parse_value.psimps[OF 1(1)])
        with le le2 show ?thesis by simp
      next
        case d: False
        with p sk sk2 True obtain ms where "parse_members (d # ds) = Some (ms, r)"
          by (auto simp: parse_value.psimps[OF 1(1)] split: option.splits)
        with 1(2)[OF sk True sk2 d] have "length r < length (d # ds)" by blast
        with le le2 show ?thesis by simp
      qed
    next
      case n123: False
      show ?thesis
      proof (cases "c = 91")
        case True
        with p sk n123 obtain d ds where sk2: "skip_ws cs = d # ds"
          by (auto simp: parse_value.psimps[OF 1(1)] split: list.splits)
        note le2 = skip_ws_Cons_le[OF sk2]
        show ?thesis
        proof (cases "d = 93")
          case d: True
          with p sk sk2 True n123 have "r = ds" by (simp add: parse_value.psimps[OF 1(1)])
          with le le2 show ?thesis by simp
        next
          case d: False
          with p sk sk2 True n123 obtain vs where "parse_elements (d # ds) = Some (vs, r)"
            by (auto simp: parse_value.psimps[OF 1(1)] split: option.splits)
          with 1(3)[OF sk n123 True sk2 d] have "length r < length (d # ds)" by blast
          with le le2 show ?thesis by simp
        qed
      next
        case n91: False
        from p sk n123 n91 have
          "(\<exists>str. lex_string cs = Some (str, r)) \<or> r = drop 4 (c # cs) \<or> r = drop 5 (c # cs)
           \<or> (\<exists>n. lex_number (c # cs) = Some (n, r))"
          by (auto simp: parse_value.psimps[OF 1(1)] split: option.splits if_splits)
        then show ?thesis
          using le by (auto dest: lex_string_shrinks lex_number_shrinks)
      qed
    qed
  qed
next
  case (2 s)
  show ?case
  proof (intro allI impI)
    fix vs r assume p: "parse_elements s = Some (vs, r)"
    then obtain v r0 where v: "parse_value s = Some (v, r0)"
      by (auto simp: parse_elements.psimps[OF 2(1)] split: option.splits)
    with 2(2) have l0: "length r0 < length s" by blast
    from p v obtain d ds where sk: "skip_ws r0 = d # ds"
      by (auto simp: parse_elements.psimps[OF 2(1)] split: list.splits)
    note le = skip_ws_Cons_le[OF sk]
    show "length r < length s"
    proof (cases "d = 44")
      case True
      with p v sk obtain vs' where "parse_elements ds = Some (vs', r)"
        by (auto simp: parse_elements.psimps[OF 2(1)] split: option.splits)
      with 2(3)[OF v refl sk True] have "length r < length ds" by blast
      with l0 le show ?thesis by simp
    next
      case False
      with p v sk have "r = ds"
        by (auto simp: parse_elements.psimps[OF 2(1)] split: if_splits)
      with l0 le show ?thesis by simp
    qed
  qed
next
  case (3 s)
  show ?case
  proof (intro allI impI)
    fix ms r assume p: "parse_members s = Some (ms, r)"
    then obtain q qs where sk: "skip_ws s = q # qs"
      by (auto simp: parse_members.psimps[OF 3(1)] split: list.splits)
    with p have q: "\<not> q \<noteq> 34"
      by (auto simp: parse_members.psimps[OF 3(1)] split: if_splits)
    from p sk q obtain k r0 where k: "lex_string qs = Some (k, r0)"
      by (auto simp: parse_members.psimps[OF 3(1)] split: option.splits)
    from p sk q k obtain colon r1 where sk1: "skip_ws r0 = colon # r1"
      by (auto simp: parse_members.psimps[OF 3(1)] split: list.splits)
    with p sk q k have colon: "\<not> colon \<noteq> 58"
      by (auto simp: parse_members.psimps[OF 3(1)] split: if_splits)
    from p sk q k sk1 colon obtain v r2 where v: "parse_value r1 = Some (v, r2)"
      by (auto simp: parse_members.psimps[OF 3(1)] split: option.splits)
    from p sk q k sk1 colon v obtain d ds where sk2: "skip_ws r2 = d # ds"
      by (auto simp: parse_members.psimps[OF 3(1)] split: list.splits)
    have l1: "length r1 < length s"
      using skip_ws_Cons_le[OF sk] lex_string_shrinks[OF k] skip_ws_Cons_le[OF sk1] by simp
    from 3(2)[OF sk q k refl sk1 colon] v have l2: "length r2 < length r1" by blast
    note le2 = skip_ws_Cons_le[OF sk2]
    show "length r < length s"
    proof (cases "d = 44")
      case True
      with p sk q k sk1 colon v sk2 obtain ms' where "parse_members ds = Some (ms', r)"
        by (auto simp: parse_members.psimps[OF 3(1)] split: option.splits)
      with 3(3)[OF sk q k refl sk1 colon v refl sk2 True] have "length r < length ds" by blast
      with l1 l2 le2 show ?thesis by simp
    next
      case False
      with p sk q k sk1 colon v sk2 have "r = ds"
        by (auto simp: parse_members.psimps[OF 3(1)] split: if_splits)
      with l1 l2 le2 show ?thesis by simp
    qed
  qed
qed

lemma parse_value_shrinks_dom:
  "parse_value_parse_elements_parse_members_dom (Inl s) \<Longrightarrow>
     parse_value s = Some (v, r) \<Longrightarrow> length r < length s"
  using parse_shrinks_dom(1) by blast

termination parse_value
  apply (relation "measure (\<lambda>x. case x of Inl s \<Rightarrow> 2 * length s
                                 | Inr (Inl s) \<Rightarrow> 2 * length s + 1
                                 | Inr (Inr s) \<Rightarrow> 2 * length s + 1)")
  apply (auto dest!: skip_ws_Cons_le lex_string_shrinks parse_value_shrinks_dom)
  done

definition JSON_parse :: "jsstring \<Rightarrow> json option" where
  "JSON_parse s =
     (case parse_value s of
        None \<Rightarrow> None
      | Some (v, r) \<Rightarrow> if skip_ws r = [] then Some v else None)"

section \<open>types.ts\<close>

record ColorInfo =
  hex :: jsstring
  name :: jsstring
  role :: jsstring

record GeneratedResult =
  imageUrl :: "jsstring option"
  result_text :: "jsstring option"
  colors :: "ColorInfo list"

record ElementStyle =
  style_primary :: jsstring
  style_secondary :: "jsstring list"
  era :: jsstring

record ElementMaterials =
  materials_primary :: jsstring
  materials_secondary :: "jsstring list"
  finish :: jsstring

record ElementColors =
  dominant :: jsstring
  accent :: "jsstring list"
  colorScheme :: jsstring

record ElementDimensions =
  estimated :: bool
  scale :: jsstring
  proportions :: jsstring

record ElementDescription =
  overview :: jsstring
  distinctiveFeatures :: "jsstring list"
  functionality :: jsstring
  condition :: jsstring

record ElementMarket =
  estimatedValue :: jsstring
  availability :: jsstring
  brands :: "jsstring list"
  whereToBuy :: "jsstring list"

record ElementCulturalContext =
  origin :: jsstring
  significance :: jsstring
  modernRelevance :: jsstring

record ElementTechnicalDetails =
  constructionMethod :: jsstring
  qualityIndicators :: "jsstring list"
  maintenance :: jsstring

record ElementRecommendations =
  similarItems :: "jsstring list"
  styling :: jsstring
  occasions :: "jsstring list"

record ElementMetadata =
  confidence :: jsnumber
  analysisTimestamp :: jsstring
  elementPosition :: jsstring
  imageQuality :: jsstring

text \<open>
  \<open>elementType\<close> is declared as a union of six string literals; the value comes from the
  reply of the service unchecked, so it is kept as the string it is at run time.
\<close>

record ElementDetails =
  elementType :: jsstring
  details_name :: jsstring
  category :: jsstring
  subcategory :: jsstring
  style :: ElementStyle
  materials :: ElementMaterials
  details_colors :: ElementColors
  dimensions :: ElementDimensions
  description :: ElementDescription
  market :: ElementMarket
  culturalContext :: ElementCulturalContext
  technicalDetails :: ElementTechnicalDetails
  recommendations :: ElementRecommendations
  metadata :: ElementMetadata

text \<open>
  \<open>getElementDetails\<close> stores the parsed reply without validating it against
  \<open>ElementDetails\<close>, so \<open>details\<close> holds the parsed JSON value.
\<close>

record ElementDetailsResult =
  details_imageUrl :: jsstring
  details :: json

record SimilarItem =
  title :: jsstring
  uri :: jsstring

section \<open>The browser: files and object URLs\<close>

record File =
  file_name :: jsstring
  file_type :: jsstring
  file_bytes :: "nat list"

text \<open>
  \<open>URL.createObjectURL\<close> registers the file in the document's blob URL store and returns
  a URL that no earlier call returned. The store is the list of registered files, and an
  object URL is the position of its file in the store.
\<close>

type_synonym object_url = nat

type_synonym blob_store = "File list"

definition createObjectURL :: "File \<Rightarrow> blob_store \<Rightarrow> object_url \<times> blob_store" where
  "createObjectURL f store = (length store, store @ [f])"

definition resolve_url :: "blob_store \<Rightarrow> object_url \<Rightarrow> File option" where
  "resolve_url store u = (if u < length store then Some (store ! u) else None)"

section \<open>The state of the App component\<close>

record app_state =
  primaryImageFile :: "File option"
  primaryImagePreview :: "object_url option"
  secondaryImageFile :: "File option"
  secondaryImagePreview :: "object_url option"
  imageType :: jsstring
  customImageType :: jsstring
  userPrompt :: jsstring
  generatedResult :: "GeneratedResult option"
  isLoading :: bool
  error :: "jsstring option"
  elementDetailsResult :: "ElementDetailsResult option"
  isElementLoading :: bool
  elementError :: "jsstring option"
  clickPosition :: "(jsnumber \<times> jsnumber) option"
  isEnhancing :: bool
  enhancementError :: "jsstring option"
  similarItemsState :: "SimilarItem list option"
  isFindingSimilar :: bool
  findSimilarError :: "jsstring option"
  compositeResultUrl :: "jsstring option"
  isGeneratingComposite :: bool
  compositeError :: "jsstring option"

definition resetAllOutputs :: "app_state \<Rightarrow> app_state" where
  "resetAllOutputs s = s
     \<lparr> generatedResult := None,
       elementDetailsResult := None,
       clickPosition := None,
       error := None,
       elementError := None,
       enhancementError := None,
       similarItemsState := None,
       findSimilarError := None,
       compositeResultUrl := None,
       compositeError := None \<rparr>"

text \<open>The handler runs in the browser: it changes the component state and the blob URL store.\<close>

definition handlePrimaryImageUpload ::
  "File \<Rightarrow> app_state \<times> blob_store \<Rightarrow> app_state \<times> blob_store" where
  "handlePrimaryImageUpload file = (\<lambda>(s, store).
     let (u, store') = createObjectURL file store in
     (resetAllOutputs
        (s \<lparr> primaryImageFile := Some file,
             primaryImagePreview := Some u,
             secondaryImageFile := None,
             secondaryImagePreview := None \<rparr>),
      store'))"

definition handleSecondaryImageUpload ::
  "File \<Rightarrow> app_state \<times> blob_store \<Rightarrow> app_state \<times> blob_store" where
  "handleSecondaryImageUpload file = (\<lambda>(s, store).
     let (u, store') = createObjectURL file store in
     (s \<lparr> secondaryImageFile := Some file, secondaryImagePreview := Some u \<rparr>, store'))"

text \<open>Every result and error slot that \<open>resetAllOutputs\<close> writes is empty.\<close>

definition outputs_cleared :: "app_state \<Rightarrow> bool" where
  "outputs_cleared s =
     (generatedResult s = None \<and> elementDetailsResult s = None \<and> clickPosition s = None
      \<and> error s = None \<and> elementError s = None \<and> enhancementError s = None
      \<and> similarItemsState s = None \<and> findSimilarError s = None
      \<and> compositeResultUrl s = None \<and> compositeError s = None)"

section \<open>Regular expressions, as far as the service layer uses them\<close>

text \<open>
  The backtracking matcher of ECMAScript for the operators of the one pattern in the
  source: a literal, a capture group, a greedy \<open>?\<close>, a greedy \<open>*\<close> and a lazy \<open>+?\<close> over a
  character class, and concatenation. A matcher takes the input that is left, the
  captures so far and a continuation; a choice point tries its first alternative with the
  whole continuation and falls back to the next one when that fails.
\<close>

datatype cls = ClsWs | ClsAny

fun in_cls :: "cls \<Rightarrow> nat \<Rightarrow> bool" where
  "in_cls ClsWs c = is_ws c"
| "in_cls ClsAny c = True"

datatype rx =
    Lit jsstring
  | Group nat rx
  | Opt rx
  | Star cls
  | LazyPlus cls
  | Seq rx rx

type_synonym captures = "nat \<Rightarrow> jsstring option"

type_synonym match_state = "jsstring \<times> captures"

text \<open>Greedy \<open>*\<close>: take one more code unit of the class first, stop here only if that fails.\<close>

fun star_greedy :: "cls \<Rightarrow> jsstring \<Rightarrow> (jsstring \<Rightarrow> 'a option) \<Rightarrow> 'a option" where
  "star_greedy c [] k = k []"
| "star_greedy c (x # xs) k =
     (if in_cls c x
      then (case star_greedy c xs k of Some r \<Rightarrow> Some r | None \<Rightarrow> k (x # xs))
      else k (x # xs))"

text \<open>Lazy \<open>*?\<close>: stop here first, take one more code unit of the class only if that fails.\<close>

fun star_lazy :: "cls \<Rightarrow> jsstring \<Rightarrow> (jsstring \<Rightarrow> 'a option) \<Rightarrow> 'a option" where
  "star_lazy c [] k = k []"
| "star_lazy c (x # xs) k =
     (case k (x # xs) of Some r \<Rightarrow> Some r
      | None \<Rightarrow> if in_cls c x then star_lazy c xs k else None)"

text \<open>Lazy \<open>+?\<close>: one code unit of the class, then lazy \<open>*?\<close>.\<close>

fun plus_lazy :: "cls \<Rightarrow> jsstring \<Rightarrow> (jsstring \<Rightarrow> 'a option) \<Rightarrow> 'a option" where
  "plus_lazy c [] k = None"
| "plus_lazy c (x # xs) k = (if in_cls c x then star_lazy c xs k else None)"

primrec rmatch ::
  "rx \<Rightarrow> jsstring \<Rightarrow> captures \<Rightarrow> (jsstring \<Rightarrow> captures \<Rightarrow> match_state option)
     \<Rightarrow> match_state option" where
  "rmatch (Lit l) = (\<lambda>inp caps k.
     if take (length l) inp = l then k (drop (length l) inp) caps else None)"
| "rmatch (Group n r) = (\<lambda>inp caps k.
     rmatch r inp caps
       (\<lambda>rest caps'. k rest (caps'(n \<mapsto> take (length inp - length rest) inp))))"
| "rmatch (Opt r) = (\<lambda>inp caps k.
     case rmatch r inp caps k of Some m \<Rightarrow> Some m | None \<Rightarrow> k inp caps)"
| "rmatch (Star c) = (\<lambda>inp caps k. star_greedy c inp (\<lambda>rest. k rest caps))"
| "rmatch (LazyPlus c) = (\<lambda>inp caps k. plus_lazy c inp (\<lambda>rest. k rest caps))"
| "rmatch (Seq a b) = (\<lambda>inp caps k.
     rmatch a inp caps (\<lambda>rest caps'. rmatch b rest caps' k))"

text \<open>
  A match attempt at one start position: group 0 is the matched text, every other group
  starts undefined.
\<close>

definition match_here :: "rx \<Rightarrow> jsstring \<Rightarrow> captures option" where
  "match_here r inp =
     (case rmatch r inp (\<lambda>_. None) (\<lambda>rest caps. Some (rest, caps)) of
        None \<Rightarrow> None
      | Some (rest, caps) \<Rightarrow> Some (caps(0 \<mapsto> take (length inp - length rest) inp)))"

text \<open>
  \<open>String.prototype.match\<close> with a pattern without the \<open>g\<close> flag: the match at the
  leftmost start position that has one (the end of the text is a start position too), or
  \<open>null\<close>.
\<close>

fun js_match :: "rx \<Rightarrow> jsstring \<Rightarrow> captures option" where
  "js_match r [] = match_here r []"
| "js_match r (x # xs) =
     (case match_here r (x # xs) of Some m \<Rightarrow> Some m | None \<Rightarrow> js_match r xs)"

section \<open>services/geminiService.ts\<close>

subsection \<open>The shapes of the SDK\<close>

record Blob =
  data :: jsstring
  mimeType :: jsstring

text \<open>
  A \<open>Part\<close> of the SDK has optional fields; the service layer reads \<open>text\<close> and
  \<open>inlineData\<close>. A part with neither (a function call, say) has both \<open>None\<close>.
\<close>

record Part =
  part_text :: "jsstring option"
  inlineData :: "Blob option"

datatype Modality = IMAGE | TEXT

datatype Tool = GoogleSearch

datatype Contents = PartsContents "Part list" | PromptContents jsstring

record Config =
  responseModalities :: "Modality list option"
  tools :: "Tool list option"

record GenerateContentRequest =
  model :: jsstring
  contents :: Contents
  config :: Config

record WebChunk =
  web_title :: "jsstring option"
  web_uri :: "jsstring option"

record GroundingChunk =
  web :: "WebChunk option"

record GroundingMetadata =
  groundingChunks :: "GroundingChunk list option"

text \<open>
  A candidate of the SDK has an optional \<open>content\<close>, and a content has optional \<open>parts\<close>:
  a reply that the service stops for safety can carry a candidate with a finish reason
  and no content.
\<close>

record Content =
  content_parts :: "Part list option"

record Candidate =
  content :: "Content option"
  groundingMetadata :: "GroundingMetadata option"

record GenerateContentResponse =
  blockReason :: "jsstring option"
  candidates :: "Candidate list option"

text \<open>
  \<open>ai.models.generateContent\<close>: the service answers a request with a response, or the
  call rejects with some thrown value.
\<close>

datatype api_outcome = Rejects thrown | Resolves GenerateContentResponse

type_synonym service = "GenerateContentRequest \<Rightarrow> api_outcome"

text \<open>
  The \<open>catch\<close> clause every exported function ends with: an \<open>Error\<close> is thrown again with
  the capability's prefix before its message, anything else becomes a fixed message.
\<close>

fun rethrow :: "jsstring \<Rightarrow> jsstring \<Rightarrow> thrown \<Rightarrow> thrown" where
  "rethrow prefix unknown (ErrorObj m) = ErrorObj (prefix @ m)"
| "rethrow prefix unknown NonError = ErrorObj unknown"

definition dataUrl :: "Blob \<Rightarrow> jsstring" where
  "dataUrl b = lit ''data:'' @ mimeType b @ lit '';base64,'' @ data b"

definition image_text_modalities :: Config where
  "image_text_modalities = \<lparr> responseModalities = Some [IMAGE, TEXT], tools = None \<rparr>"

definition flash_image_model :: jsstring where
  "flash_image_model = lit ''gemini-2.5-flash-image''"

subsection \<open>parseJsonFromMarkdown\<close>

definition fence_regex :: rx where
  "fence_regex =
     Seq (Lit (lit ''```''))
    (Seq (Opt (Group 1 (Lit (lit ''json''))))
    (Seq (Star ClsWs)
    (Seq (Group 2 (LazyPlus ClsAny))
    (Seq (Star ClsWs)
         (Lit (lit ''```''))))))"

text \<open>The text handed to \<open>JSON.parse\<close>.\<close>

definition jsonString :: "jsstring \<Rightarrow> jsstring" where
  "jsonString txt =
     (case js_match fence_regex txt of
        None \<Rightarrow> trim txt
      | Some m \<Rightarrow> (if truthy_opt (m 2) then trim (the (m 2)) else trim txt))"

text \<open>
  \<open>JSON.parse\<close> is the first argument: the parsed value, or \<open>None\<close> where it throws. The
  function returns \<open>null\<close> where it throws.
\<close>

definition parseJsonFromMarkdown :: "(jsstring \<Rightarrow> json option) \<Rightarrow> jsstring \<Rightarrow> json" where
  "parseJsonFromMarkdown parse txt =
     (case parse (jsonString txt) of Some v \<Rightarrow> v | None \<Rightarrow> JNull)"

subsection \<open>callGeminiModel\<close>

text \<open>
  The last line reads \<open>response.candidates[0].content.parts\<close> with no guard. Reading
  \<open>parts\<close> of an absent content throws a \<open>TypeError\<close>; absent parts of a content are
  returned as \<open>undefined\<close>, and the \<open>for ... of\<close> loop of the caller then throws a
  \<open>TypeError\<close>. A \<open>TypeError\<close> is an \<open>Error\<close>. Its message is the engine's own; the two
  texts below are the wording of V8.
\<close>

definition read_parts_of_undefined :: jsstring where
  "read_parts_of_undefined =
     lit ''Cannot read properties of undefined (reading '' @ [39] @ lit ''parts'' @ [39] @ lit '')''"

definition parts_not_iterable :: jsstring where
  "parts_not_iterable = lit ''parts is not iterable''"

definition callGeminiModel ::
  "service \<Rightarrow> jsstring \<Rightarrow> Part list \<Rightarrow> Config \<Rightarrow> thrown + Part list option" where
  "callGeminiModel ai m parts cfg =
     (case ai \<lparr> model = m, contents = PartsContents parts, config = cfg \<rparr> of
        Rejects e \<Rightarrow> Inl e
      | Resolves response \<Rightarrow>
          if truthy_opt (blockReason response)
          then Inl (ErrorObj (lit ''Request was blocked due to: '' @ the (blockReason response)))
          else (case candidates response of
                  None \<Rightarrow> Inl (ErrorObj (lit
                    ''The AI did not return a response. It may have been filtered for safety reasons.''))
                | Some [] \<Rightarrow> Inl (ErrorObj (lit
                    ''The AI did not return a response. It may have been filtered for safety reasons.''))
                | Some (c # _) \<Rightarrow>
                    (case content c of
                       None \<Rightarrow> Inl (ErrorObj read_parts_of_undefined)
                     | Some ct \<Rightarrow> Inr (content_parts ct))))"

subsection \<open>generateMoodboard\<close>

text \<open>The request's \<open>contents.parts\<close> of a call with one image: the image, then the text.\<close>

definition image_and_text :: "jsstring \<Rightarrow> jsstring \<Rightarrow> jsstring \<Rightarrow> Part list" where
  "image_and_text base64ImageData mime txt =
     [\<lparr> part_text = None, inlineData = Some \<lparr> data = base64ImageData, mimeType = mime \<rparr> \<rparr>,
      \<lparr> part_text = Some txt, inlineData = None \<rparr>]"

text \<open>
  One round of the loop over the reply's parts: a part with truthy text sets the text,
  otherwise a part with inline data sets the image URL, otherwise nothing changes.
\<close>

definition image_text_step ::
  "jsstring option \<times> jsstring option \<Rightarrow> Part \<Rightarrow> jsstring option \<times> jsstring option" where
  "image_text_step acc part =
     (if truthy_opt (part_text part) then (fst acc, part_text part)
      else (case inlineData part of
              Some b \<Rightarrow> (Some (dataUrl b), snd acc)
            | None \<Rightarrow> acc))"

definition image_text_loop :: "Part list \<Rightarrow> jsstring option \<times> jsstring option" where
  "image_text_loop parts = foldl image_text_step (None, None) parts"

definition moodboard_prefix :: jsstring where
  "moodboard_prefix = lit ''Failed to generate mood board: ''"

definition moodboard_unknown :: jsstring where
  "moodboard_unknown = lit ''An unknown error occurred while communicating with the AI.''"

definition moodboard_no_image :: jsstring where
  "moodboard_no_image = lit
     ''The AI did not return an image. It may have been filtered for safety reasons or the prompt was unclear.''"

definition generateMoodboard ::
  "service \<Rightarrow> jsstring \<Rightarrow> jsstring \<Rightarrow> jsstring \<Rightarrow> thrown + GeneratedResult" where
  "generateMoodboard ai base64ImageData mime prompt =
     (case callGeminiModel ai flash_image_model
             (image_and_text base64ImageData mime prompt) image_text_modalities of
        Inl e \<Rightarrow> Inl (rethrow moodboard_prefix moodboard_unknown e)
      | Inr None \<Rightarrow>
          Inl (rethrow moodboard_prefix moodboard_unknown (ErrorObj parts_not_iterable))
      | Inr (Some parts) \<Rightarrow>
          (case image_text_loop parts of (img, txt) \<Rightarrow>
             if \<not> truthy_opt img
             then Inl (rethrow moodboard_prefix moodboard_unknown (ErrorObj moodboard_no_image))
             else Inr \<lparr> imageUrl = img, result_text = txt, colors = [] \<rparr>))"

subsection \<open>getElementDetails\<close>

definition details_step ::
  "(jsstring \<Rightarrow> json option) \<Rightarrow> jsstring option \<times> json \<Rightarrow> Part \<Rightarrow> jsstring option \<times> json" where
  "details_step parse acc part =
     (if truthy_opt (part_text part)
      then (fst acc, parseJsonFromMarkdown parse (the (part_text part)))
      else (case inlineData part of
              Some b \<Rightarrow> (Some (dataUrl b), snd acc)
            | None \<Rightarrow> acc))"

definition details_loop :: "(jsstring \<Rightarrow> json option) \<Rightarrow> Part list \<Rightarrow> jsstring option \<times> json" where
  "details_loop parse parts = foldl (details_step parse) (None, JNull) parts"

definition details_prefix :: jsstring where
  "details_prefix = lit ''Failed to get element details: ''"

definition details_unknown :: jsstring where
  "details_unknown = lit ''An unknown error occurred while getting element details.''"

definition details_no_image :: jsstring where
  "details_no_image = lit ''The AI failed to generate an image for the selected element.''"

definition details_not_json :: jsstring where
  "details_not_json = lit
     ''The AI failed to provide valid details for the selected element. The response was not valid JSON.''"

text \<open>
  \<open>instructions\<close> is the fixed instruction text of the request (the template literal of
  the source with the image requirements and the JSON schema).
\<close>

definition getElementDetails ::
  "(jsstring \<Rightarrow> json option) \<Rightarrow> service \<Rightarrow> jsstring \<Rightarrow> jsstring \<Rightarrow> jsstring
     \<Rightarrow> thrown + ElementDetailsResult" where
  "getElementDetails parse ai instructions base64ImageDataWithMarker mime =
     (case callGeminiModel ai flash_image_model
             (image_and_text base64ImageDataWithMarker mime instructions)
             image_text_modalities of
        Inl e \<Rightarrow> Inl (rethrow details_prefix details_unknown e)
      | Inr None \<Rightarrow>
          Inl (rethrow details_prefix details_unknown (ErrorObj parts_not_iterable))
      | Inr (Some parts) \<Rightarrow>
          (case details_loop parse parts of (img, dets) \<Rightarrow>
             if \<not> truthy_opt img
             then Inl (rethrow details_prefix details_unknown (ErrorObj details_no_image))
             else if \<not> truthy_json dets
             then Inl (rethrow details_prefix details_unknown (ErrorObj details_not_json))
             else Inr \<lparr> details_imageUrl = the img, details = dets \<rparr>))"

subsection \<open>enhanceImageTo8K\<close>

definition enhance_instructions :: jsstring where
  "enhance_instructions = lit
     ''Upscale this image to a photorealistic 8K resolution. Increase detail, sharpness, and clarity. Do not change the content, composition, or colors of the original image. Return only the enhanced image.''"

definition enhance_prefix :: jsstring where
  "enhance_prefix = lit ''Failed to enhance image: ''"

definition enhance_unknown :: jsstring where
  "enhance_unknown = lit ''An unknown error occurred while enhancing the image.''"

definition enhance_no_image :: jsstring where
  "enhance_no_image = lit ''The AI did not return an enhanced image. It may have been filtered.''"

definition enhanceImageTo8K :: "service \<Rightarrow> jsstring \<Rightarrow> jsstring \<Rightarrow> thrown + jsstring" where
  "enhanceImageTo8K ai base64ImageData mime =
     (case callGeminiModel ai flash_image_model
             (image_and_text base64ImageData mime enhance_instructions)
             image_text_modalities of
        Inl e \<Rightarrow> Inl (rethrow enhance_prefix enhance_unknown e)
      | Inr None \<Rightarrow>
          Inl (rethrow enhance_prefix enhance_unknown (ErrorObj parts_not_iterable))
      | Inr (Some parts) \<Rightarrow>
          (case List.find (\<lambda>part. inlineData part \<noteq> None) parts of
             Some part \<Rightarrow> Inr (dataUrl (the (inlineData part)))
           | None \<Rightarrow> Inl (rethrow enhance_prefix enhance_unknown (ErrorObj enhance_no_image))))"

subsection \<open>findSimilarItems\<close>

definition similar_prompt :: "ElementDetails \<Rightarrow> jsstring" where
  \<open>similar_prompt d =
     (if elementType d = lit ''fashion_item'' \<or> elementType d = lit ''product''
      then lit ''Find the product named "'' @ details_name d @
           lit ''" on e-commerce websites like Amazon, Myntra, H&M, or other relevant online stores. Prioritize direct shopping links.''
      else if elementType d = lit ''architectural_feature''
      then lit ''Find the location of the building or landmark known as "'' @ details_name d @
           lit ''" on Google Maps. Provide a direct link to the location.''
      else if elementType d = lit ''food_item''
      then lit ''Find recipes for "'' @ details_name d @
           lit ''" from Zomato, food wikis, or popular recipe blogs.''
      else if elementType d = lit ''design_element''
      then lit ''Find similar artwork or designs to "'' @ details_name d @
           lit ''" on Pinterest, Behance, or Dribbble.''
      else lit ''Find more information and relevant links for "'' @ details_name d @ lit ''".'')\<close>

definition similar_request :: "ElementDetails \<Rightarrow> GenerateContentRequest" where
  "similar_request d =
     \<lparr> model = lit ''gemini-2.5-flash'',
       contents = PromptContents (similar_prompt d),
       config = \<lparr> responseModalities = None, tools = Some [GoogleSearch] \<rparr> \<rparr>"

text \<open>\<open>response.candidates?.[0]?.groundingMetadata?.groundingChunks\<close>\<close>

definition response_chunks :: "GenerateContentResponse \<Rightarrow> GroundingChunk list option" where
  "response_chunks response =
     (case candidates response of
        None \<Rightarrow> None
      | Some [] \<Rightarrow> None
      | Some (c # _) \<Rightarrow>
          (case groundingMetadata c of None \<Rightarrow> None | Some g \<Rightarrow> groundingChunks g))"

definition chunk_item :: "GroundingChunk \<Rightarrow> SimilarItem" where
  "chunk_item chunk =
     \<lparr> title = (case web chunk of
                  None \<Rightarrow> lit ''Untitled''
                | Some w \<Rightarrow> if truthy_opt (web_title w) then the (web_title w) else lit ''Untitled''),
       uri = (case web chunk of
                None \<Rightarrow> []
              | Some w \<Rightarrow> if truthy_opt (web_uri w) then the (web_uri w) else []) \<rparr>"

definition similar_prefix :: jsstring where
  "similar_prefix = lit ''Failed to find similar items: ''"

definition similar_unknown :: jsstring where
  "similar_unknown = lit ''An unknown error occurred while searching for similar items.''"

definition findSimilarItems :: "service \<Rightarrow> ElementDetails \<Rightarrow> thrown + SimilarItem list" where
  "findSimilarItems ai d =
     (case ai (similar_request d) of
        Rejects e \<Rightarrow> Inl (rethrow similar_prefix similar_unknown e)
      | Resolves response \<Rightarrow>
          (case response_chunks response of
             None \<Rightarrow> Inr []
           | Some chunks \<Rightarrow>
               if length chunks > 0
               then Inr (filter (\<lambda>item. truthy_str (uri item)) (map chunk_item chunks))
               else Inr []))"

subsection \<open>generateCompositeImage\<close>







section \<open>App.tsx: generating the mood board\<close>

text \<open>
  \<open>template\<close> is \<open>DEFAULT_MOODBOARD_PROMPT\<close>, the fixed instruction text of the mood
  board.
\<close>

definition finalPrompt :: "jsstring \<Rightarrow> jsstring \<Rightarrow> jsstring \<Rightarrow> jsstring \<Rightarrow> jsstring" where
  "finalPrompt template imgType customType usrPrompt =
     (let finalImageType =
            (if imgType = lit ''OTHER'' \<and> truthy_str customType then customType else imgType);
          p = lit ''ATTENTION: The uploaded image is categorized as '' @ finalImageType @
              lit ''. Prioritize the specific rules for this category in your analysis.\<newline>\<newline>'' @
              template
      in if truthy_str (trim usrPrompt)
         then p @ lit ''\<newline>\<newline>ADDITIONAL USER INSTRUCTIONS: '' @ trim usrPrompt
         else p)"

text \<open>The statements of the handler between its guard and its first \<open>await\<close>.\<close>

definition moodboard_reset :: "app_state \<Rightarrow> app_state" where
  "moodboard_reset s = s
     \<lparr> isLoading := True,
       generatedResult := None,
       elementDetailsResult := None,
       clickPosition := None,
       error := None,
       elementError := None,
       enhancementError := None,
       similarItemsState := None,
       findSimilarError := None \<rparr>"

text \<open>What \<open>catch (err)\<close> shows: \<open>err instanceof Error ? err.message : fallback\<close>.\<close>

fun message_or :: "jsstring \<Rightarrow> thrown \<Rightarrow> jsstring" where
  "message_or fallback (ErrorObj m) = m"
| "message_or fallback NonError = fallback"

text \<open>The end of the handler: the result or the error is stored, then \<open>finally\<close> runs.\<close>

definition moodboard_settle :: "app_state \<Rightarrow> thrown + GeneratedResult \<Rightarrow> app_state" where
  "moodboard_settle s outcome =
     (case outcome of
        Inr result \<Rightarrow> s \<lparr> generatedResult := Some result, isLoading := False \<rparr>
      | Inl err \<Rightarrow> s \<lparr> error := Some (message_or (lit ''Moodboard generation failed.'') err),
                        isLoading := False \<rparr>)"

text \<open>
  One run of the handler with no other handler running in between. \<open>fileToBase64\<close> is
  the outcome of the \<open>FileReader\<close> for a file: the base64 text, or \<open>None\<close> where the
  reader fails and the promise rejects with the reader's event (not an \<open>Error\<close>).
\<close>

definition handleGenerateMoodboard ::
  "jsstring \<Rightarrow> (File \<Rightarrow> jsstring option) \<Rightarrow> service \<Rightarrow> app_state \<Rightarrow> app_state" where
  "handleGenerateMoodboard template fileToBase64 ai s =
     (case primaryImageFile s of
        None \<Rightarrow> s \<lparr> error := Some (lit ''Please upload the primary image first.'') \<rparr>
      | Some file \<Rightarrow>
          (case fileToBase64 file of
             None \<Rightarrow> moodboard_settle (moodboard_reset s) (Inl NonError)
           | Some base64Data \<Rightarrow>
               moodboard_settle (moodboard_reset s)
                 (generateMoodboard ai base64Data (file_type file)
                    (finalPrompt template (imageType s) (customImageType s) (userPrompt s)))))"

section \<open>App.tsx: a click on the mood board\<close>





section \<open>Text parts and image parts\<close>

text \<open>
  The words of the specification for what the loops over a reply's parts tell apart. A
  text part is a part whose text is truthy (present and not empty); an image part is a
  part that has inline data and is not a text part. The loops keep the last text and the
  last image.
\<close>

definition is_text_part :: "Part \<Rightarrow> bool" where
  "is_text_part p = truthy_opt (part_text p)"

definition is_image_part :: "Part \<Rightarrow> bool" where
  "is_image_part p = (\<not> truthy_opt (part_text p) \<and> inlineData p \<noteq> None)"

definition last_text :: "Part list \<Rightarrow> jsstring option" where
  "last_text parts =
     (case List.find is_text_part (rev parts) of None \<Rightarrow> None | Some p \<Rightarrow> part_text p)"

definition last_image :: "Part list \<Rightarrow> jsstring option" where
  "last_image parts =
     (case List.find is_image_part (rev parts) of
        None \<Rightarrow> None
      | Some p \<Rightarrow> map_option dataUrl (inlineData p))"

definition last_details :: "(jsstring \<Rightarrow> json option) \<Rightarrow> Part list \<Rightarrow> json" where
  "last_details parse parts =
     (case last_text parts of None \<Rightarrow> JNull | Some t \<Rightarrow> parseJsonFromMarkdown parse t)"

text \<open>
  A reply passes the two checks of \<open>callGeminiModel\<close> when it has no truthy block reason
  and at least one candidate. The parts of a reply are the parts of the content of its
  first candidate; a reply whose first candidate has no content, or a content without
  parts, has no part.
\<close>

definition passes_checks :: "GenerateContentResponse \<Rightarrow> bool" where
  "passes_checks r =
     (\<not> truthy_opt (blockReason r)
      \<and> (case candidates r of None \<Rightarrow> False | Some cs \<Rightarrow> 0 < length cs))"

definition first_parts :: "GenerateContentResponse \<Rightarrow> Part list option" where
  "first_parts r =
     (case candidates r of
        None \<Rightarrow> None
      | Some [] \<Rightarrow> None
      | Some (c # _) \<Rightarrow> (case content c of None \<Rightarrow> None | Some ct \<Rightarrow> content_parts ct))"

definition reply_parts :: "GenerateContentResponse \<Rightarrow> Part list" where
  "reply_parts r = (case first_parts r of None \<Rightarrow> [] | Some parts \<Rightarrow> parts)"

definition moodboard_outputs_cleared :: "app_state \<Rightarrow> bool" where
  "moodboard_outputs_cleared s =
     (generatedResult s = None \<and> elementDetailsResult s = None \<and> clickPosition s = None
      \<and> error s = None \<and> elementError s = None \<and> enhancementError s = None
      \<and> similarItemsState s = None \<and> findSimilarError s = None)"

definition chunk_has_uri :: "GroundingChunk \<Rightarrow> bool" where
  "chunk_has_uri chunk = (case web chunk of None \<Rightarrow> False | Some w \<Rightarrow> truthy_opt (web_uri w))"

section \<open>Fenced code blocks\<close>

text \<open>
  The specification's fenced code block: the text between a line with three backticks,
  with or without the language tag \<open>json\<close>, and a line with three backticks.
\<close>

definition fenced :: "jsstring \<Rightarrow> jsstring \<Rightarrow> jsstring" where
  "fenced lang s = lit ''```'' @ lang @ lit ''\<newline>'' @ s @ lit ''\<newline>```''"

fun contains_fence :: "jsstring \<Rightarrow> bool" where
  "contains_fence [] = False"
| "contains_fence (x # xs) = (take 3 (x # xs) = lit ''```'' \<or> contains_fence xs)"

definition ticks :: jsstring where
  "ticks = lit ''```''"

definition fence_rest :: rx where
  "fence_rest = Seq (Star ClsWs) (Seq (Group 2 (LazyPlus ClsAny))
                  (Seq (Star ClsWs) (Lit ticks)))"

definition closes :: "jsstring \<Rightarrow> bool" where
  "closes r = (take 3 (dropWhile is_ws r) = ticks)"

section \<open>Sample values\<close>

text \<open>The state of the component when it is mounted.\<close>

definition initial_state :: app_state where
  "initial_state =
     \<lparr> primaryImageFile = None, primaryImagePreview = None,
       secondaryImageFile = None, secondaryImagePreview = None,
       imageType = lit ''FASHION/OUTFIT'', customImageType = [], userPrompt = [],
       generatedResult = None, isLoading = False, error = None,
       elementDetailsResult = None, isElementLoading = False, elementError = None,
       clickPosition = None,
       isEnhancing = False, enhancementError = None,
       similarItemsState = None, isFindingSimilar = False, findSimilarError = None,
       compositeResultUrl = None, isGeneratingComposite = False, compositeError = None \<rparr>"

definition look_file :: File where
  "look_file = \<lparr> file_name = lit ''look.jpg'', file_type = lit ''image/jpeg'',
                 file_bytes = [255, 216, 255] \<rparr>"

definition selfie_file :: File where
  "selfie_file = \<lparr> file_name = lit ''me.png'', file_type = lit ''image/png'',
                   file_bytes = [137, 80, 78, 71] \<rparr>"

definition tried_on_state :: app_state where
  "tried_on_state = initial_state
     \<lparr> primaryImageFile := Some look_file, primaryImagePreview := Some 0,
       secondaryImageFile := Some selfie_file, secondaryImagePreview := Some 1,
       compositeResultUrl := Some (lit ''data:image/png;base64,iVBORw0KGgo='') \<rparr>"

definition reader_ok :: "File \<Rightarrow> jsstring option" where
  "reader_ok f = Some (lit ''/9j/4AAQ'')"

definition png_part :: Part where
  "png_part = \<lparr> part_text = None,
                inlineData = Some \<lparr> data = lit ''iVBORw0KGgo='', mimeType = lit ''image/png'' \<rparr> \<rparr>"

definition response_with :: "Part list \<Rightarrow> GenerateContentResponse" where
  "response_with parts =
     \<lparr> blockReason = None,
       candidates = Some [\<lparr> content = Some \<lparr> content_parts = Some parts \<rparr>,
                           groundingMetadata = None \<rparr>] \<rparr>"

definition reply_with :: "Part list \<Rightarrow> service" where
  "reply_with parts = (\<lambda>request. Resolves (response_with parts))"

text \<open>A reply stopped for safety: one candidate, without content.\<close>

definition stopped_response :: GenerateContentResponse where
  "stopped_response =
     \<lparr> blockReason = None, candidates = Some [\<lparr> content = None, groundingMetadata = None \<rparr>] \<rparr>"

definition stopped_reply :: service where
  "stopped_reply = (\<lambda>request. Resolves stopped_response)"

definition blank_details :: ElementDetails where
  "blank_details =
     \<lparr> elementType = lit ''other'', details_name = [], category = [], subcategory = [],
       style = \<lparr> style_primary = [], style_secondary = [], era = [] \<rparr>,
       materials = \<lparr> materials_primary = [], materials_secondary = [], finish = [] \<rparr>,
       details_colors = \<lparr> dominant = [], accent = [], colorScheme = [] \<rparr>,
       dimensions = \<lparr> estimated = True, scale = [], proportions = [] \<rparr>,
       description = \<lparr> overview = [], distinctiveFeatures = [], functionality = [],
                       condition = [] \<rparr>,
       market = \<lparr> estimatedValue = [], availability = [], brands = [], whereToBuy = [] \<rparr>,
       culturalContext = \<lparr> origin = [], significance = [], modernRelevance = [] \<rparr>,
       technicalDetails = \<lparr> constructionMethod = [], qualityIndicators = [],
                            maintenance = [] \<rparr>,
       recommendations = \<lparr> similarItems = [], styling = [], occasions = [] \<rparr>,
       metadata = \<lparr> confidence = Finite (19 / 20), analysisTimestamp = [],
                    elementPosition = [], imageQuality = [] \<rparr> \<rparr>"

definition tower_details :: ElementDetails where
  "tower_details = blank_details
     \<lparr> elementType := lit ''architectural_feature'', details_name := lit ''Eiffel Tower'' \<rparr>"

definition grounded_reply :: "GroundingChunk list option \<Rightarrow> service" where
  "grounded_reply chunks = (\<lambda>request. Resolves
     \<lparr> blockReason = None,
       candidates = Some [\<lparr> content = Some \<lparr> content_parts =
                             Some [\<lparr> part_text = Some (lit ''Here you go.''),
                                     inlineData = None \<rparr>] \<rparr>,
                           groundingMetadata = Some \<lparr> groundingChunks = chunks \<rparr> \<rparr>] \<rparr>)"

text \<open>
  A service that answers one request only, the Google Maps query for the Eiffel Tower,
  and rejects every other request.
\<close>

definition tower_request :: GenerateContentRequest where
  \<open>tower_request =
     \<lparr> model = lit ''gemini-2.5-flash'',
       contents = PromptContents (lit
         ''Find the location of the building or landmark known as "Eiffel Tower" on Google Maps. Provide a direct link to the location.''),
       config = \<lparr> responseModalities = None, tools = Some [GoogleSearch] \<rparr> \<rparr>\<close>

definition maps_only :: "GroundingChunk list option \<Rightarrow> service" where
  "maps_only chunks =
     (\<lambda>request. if request = tower_request then grounded_reply chunks request
                else Rejects NonError)"

definition refusal_part :: Part where
  "refusal_part = \<lparr> part_text = Some (lit ''I cannot combine these images.''),
                    inlineData = None \<rparr>"

definition food_state :: app_state where
  "food_state = initial_state
     \<lparr> primaryImageFile := Some look_file, primaryImagePreview := Some 0,
       imageType := lit ''FOOD'', userPrompt := lit '' \<newline> '' \<rparr>"

definition sample_chunks :: "GroundingChunk list" where
  "sample_chunks =
     [\<lparr> web = None \<rparr>,
      \<lparr> web = Some \<lparr> web_title = None, web_uri = Some (lit ''https://maps.example/tower'') \<rparr> \<rparr>,
      \<lparr> web = Some \<lparr> web_title = Some (lit ''No link''), web_uri = Some [] \<rparr> \<rparr>,
      \<lparr> web = Some \<lparr> web_title = Some (lit ''Tower''), web_uri = Some (lit ''https://t.example'') \<rparr> \<rparr>]"





definition apology_part :: Part where
  "apology_part = \<lparr> part_text = Some (lit ''Sorry, no details.''), inlineData = None \<rparr>"

definition lamp_text :: jsstring where
  \<open>lamp_text = lit ''{"elementType":"product","name":"Lamp"}''\<close>

text \<open>
  A details object with every field of the schema, whose name holds three backticks, as
  \<open>JSON.stringify\<close> writes it, and the value it parses to.
\<close>

definition tea_mug_text :: jsstring where
  \<open>tea_mug_text =
     lit ''{"elementType":"product","name":"Tea mug ```glazed","category":"'' @
     lit ''","subcategory":"","style":{"primary":"","secondary":[],"era":""'' @
     lit ''},"materials":{"primary":"","secondary":[],"finish":""},"colors"'' @
     lit '':{"dominant":"","accent":[],"colorScheme":""},"dimensions":{"est'' @
     lit ''imated":true,"scale":"","proportions":""},"description":{"overvi'' @
     lit ''ew":"","distinctiveFeatures":[],"functionality":"","condition":"'' @
     lit ''"},"market":{"estimatedValue":"","availability":"","brands":[],"'' @
     lit ''whereToBuy":[]},"culturalContext":{"origin":"","significance":""'' @
     lit '',"modernRelevance":""},"technicalDetails":{"constructionMethod":'' @
     lit ''"","qualityIndicators":[],"maintenance":""},"recommendations":{"'' @
     lit ''similarItems":[],"styling":"","occasions":[]},"metadata":{"confi'' @
     lit ''dence":0.95,"analysisTimestamp":"","elementPosition":"","imageQu'' @
     lit ''ality":""}}''\<close>

definition tea_mug :: json where
  \<open>tea_mug =
     JObj
      [(lit ''elementType'', JStr (lit ''product'')),
       (lit ''name'', JStr (lit ''Tea mug ```glazed'')),
       (lit ''category'', JStr []),
       (lit ''subcategory'', JStr []),
       (lit ''style'', JObj [(lit ''primary'', JStr []),
          (lit ''secondary'', JArr []),
          (lit ''era'', JStr [])]),
       (lit ''materials'', JObj [(lit ''primary'', JStr []),
          (lit ''secondary'', JArr []),
          (lit ''finish'', JStr [])]),
       (lit ''colors'', JObj [(lit ''dominant'', JStr []),
          (lit ''accent'', JArr []),
          (lit ''colorScheme'', JStr [])]),
       (lit ''dimensions'', JObj [(lit ''estimated'', JBool True),
          (lit ''scale'', JStr []),
          (lit ''proportions'', JStr [])]),
       (lit ''description'', JObj [(lit ''overview'', JStr []),
          (lit ''distinctiveFeatures'', JArr []),
          (lit ''functionality'', JStr []),
          (lit ''condition'', JStr [])]),
       (lit ''market'', JObj [(lit ''estimatedValue'', JStr []),
          (lit ''availability'', JStr []),
          (lit ''brands'', JArr []),
          (lit ''whereToBuy'', JArr [])]),
       (lit ''culturalContext'', JObj [(lit ''origin'', JStr []),
          (lit ''significance'', JStr []),
          (lit ''modernRelevance'', JStr [])]),
       (lit ''technicalDetails'', JObj [(lit ''constructionMethod'', JStr []),
          (lit ''qualityIndicators'', JArr []),
          (lit ''maintenance'', JStr [])]),
       (lit ''recommendations'', JObj [(lit ''similarItems'', JArr []),
          (lit ''styling'', JStr []),
          (lit ''occasions'', JArr [])]),
       (lit ''metadata'', JObj [(lit ''confidence'', JNum (Finite (19 / 20))),
          (lit ''analysisTimestamp'', JStr []),
          (lit ''elementPosition'', JStr []),
          (lit ''imageQuality'', JStr [])])]\<close>

section \<open>Uploading the primary image\<close>

lemma outputs_cleared_resetAllOutputs: "outputs_cleared (resetAllOutputs s)"
  by (simp add: outputs_cleared_def resetAllOutputs_def)

lemma resolve_created: "createObjectURL f store = (u, store') \<Longrightarrow> resolve_url store' u = Some f"
  by (auto simp: createObjectURL_def resolve_url_def)

text \<open>
  Claim C2. For every file and every state, after \<open>handlePrimaryImageUpload\<close> the primary
  slot holds that file, the primary preview is an object URL that the blob URL store
  resolves to exactly that file, the secondary file and preview are null, and every
  result and error slot (mood board, element details, click position, similar items,
  composite, all errors) is null.
\<close>

theorem C2_primary_upload:
  "case handlePrimaryImageUpload file (s, store) of (s', store') \<Rightarrow>
     primaryImageFile s' = Some file
     \<and> (case primaryImagePreview s' of None \<Rightarrow> False
         | Some u \<Rightarrow> resolve_url store' u = Some file)
     \<and> secondaryImageFile s' = None
     \<and> secondaryImagePreview s' = None
     \<and> outputs_cleared s'"
  by (simp add: handlePrimaryImageUpload_def createObjectURL_def resolve_url_def
      resetAllOutputs_def outputs_cleared_def)

section \<open>The loops over the reply's parts\<close>

lemma image_text_loop_snoc:
  "image_text_loop (parts @ [p]) = image_text_step (image_text_loop parts) p"
  by (simp add: image_text_loop_def)

lemma image_text_loop_eq: "image_text_loop parts = (last_image parts, last_text parts)"
proof (induction parts rule: rev_induct)
  case Nil
  show ?case by (simp add: image_text_loop_def last_image_def last_text_def)
next
  case (snoc p parts)
  show ?case
    unfolding image_text_loop_snoc snoc.IH
    by (auto simp: image_text_step_def last_image_def last_text_def is_text_part_def
        is_image_part_def split: option.splits)
qed

lemma find_SomeD: "List.find P xs = Some x \<Longrightarrow> P x \<and> x \<in> set xs"
  by (induction xs) (auto split: if_splits)

lemma last_image_None: "last_image parts = None \<longleftrightarrow> (\<forall>p\<in>set parts. \<not> is_image_part p)"
  by (auto simp: last_image_def find_None_iff is_image_part_def dest!: find_SomeD split: option.splits)

lemma last_image_truthy: "truthy_opt (last_image parts) \<longleftrightarrow> (\<exists>p\<in>set parts. is_image_part p)"
  using last_image_None[of parts]
  by (cases "last_image parts") (auto simp: last_image_def dataUrl_def truthy_str_def split: option.splits)

lemma last_text_None: "last_text parts = None \<longleftrightarrow> (\<forall>p\<in>set parts. \<not> is_text_part p)"
  by (auto simp: last_text_def find_None_iff is_text_part_def dest!: find_SomeD split: option.splits)


lemma details_loop_snoc:
  "details_loop parse (parts @ [p]) = details_step parse (details_loop parse parts) p"
  by (simp add: details_loop_def)

lemma details_loop_eq:
  "details_loop parse parts = (last_image parts, last_details parse parts)"
proof (induction parts rule: rev_induct)
  case Nil
  show ?case by (simp add: details_loop_def last_image_def last_text_def last_details_def)
next
  case (snoc p parts)
  show ?case
    unfolding details_loop_snoc snoc.IH
    by (auto simp: details_step_def last_image_def last_text_def last_details_def
        is_text_part_def is_image_part_def split: option.splits)
qed

lemma callGeminiModel_reply_with:
  "callGeminiModel (reply_with parts) m ps cfg = Inr (Some parts)"
  by (simp add: callGeminiModel_def reply_with_def response_with_def)

lemma callGeminiModel_stopped_reply:
  "callGeminiModel stopped_reply m ps cfg = Inl (ErrorObj read_parts_of_undefined)"
  by (simp add: callGeminiModel_def stopped_reply_def stopped_response_def)

text \<open>What \<open>callGeminiModel\<close> returns for a reply that passes its two checks.\<close>

lemma callGeminiModel_parts:
  assumes "ai \<lparr> model = m, contents = PartsContents ps, config = cfg \<rparr> = Resolves r"
    and "passes_checks r" and "first_parts r = Some parts"
  shows "callGeminiModel ai m ps cfg = Inr (Some parts)"
  using assms
  by (auto simp: callGeminiModel_def passes_checks_def first_parts_def
      split: option.splits list.splits)

lemma callGeminiModel_no_parts:
  assumes "ai \<lparr> model = m, contents = PartsContents ps, config = cfg \<rparr> = Resolves r"
    and "passes_checks r" and "first_parts r = None"
  shows "callGeminiModel ai m ps cfg = Inl (ErrorObj read_parts_of_undefined)
       \<or> callGeminiModel ai m ps cfg = Inr None"
  using assms
  by (auto simp: callGeminiModel_def passes_checks_def first_parts_def
      split: option.splits list.splits)

lemma passes_checks_response_with: "passes_checks (response_with parts)"
  by (simp add: passes_checks_def response_with_def)

lemma first_parts_response_with: "first_parts (response_with parts) = Some parts"
  by (simp add: first_parts_def response_with_def)

lemma reply_parts_response_with: "reply_parts (response_with parts) = parts"
  by (simp add: reply_parts_def first_parts_response_with)

lemma stopped_response_facts:
  "passes_checks stopped_response" "first_parts stopped_response = None"
  "reply_parts stopped_response = []"
  by (simp_all add: passes_checks_def first_parts_def reply_parts_def stopped_response_def)

section \<open>generateMoodboard: when it throws\<close>

text \<open>
  Claim C9. For every reply to the mood-board request that passes the block-reason and
  candidate checks, \<open>generateMoodboard\<close> throws if and only if no part of the reply is an
  image part (a reply whose first candidate has no content, or no parts, has no part, and
  the call throws); a reply with an image part and no text part succeeds with \<open>text\<close>
  null and \<open>colors\<close> empty; and where the first candidate carries its parts and none is an
  image part, the message is the "did not return an image" one. (An image part is a
  part the loop reads as an image: it has inline data and no truthy text. A text part is
  a part with truthy text.)
\<close>

theorem C9_generateMoodboard:
  assumes "ai \<lparr> model = flash_image_model, contents = PartsContents (image_and_text b m p),
                config = image_text_modalities \<rparr> = Resolves r"
    and "passes_checks r"
  shows "(isl (generateMoodboard ai b m p) \<longleftrightarrow> (\<forall>q\<in>set (reply_parts r). \<not> is_image_part q))
       \<and> ((\<exists>q\<in>set (reply_parts r). is_image_part q)
            \<and> (\<forall>q\<in>set (reply_parts r). \<not> is_text_part q) \<longrightarrow>
            (\<exists>url. generateMoodboard ai b m p
               = Inr \<lparr> imageUrl = Some url, result_text = None, colors = [] \<rparr>))
       \<and> (first_parts r \<noteq> None \<and> (\<forall>q\<in>set (reply_parts r). \<not> is_image_part q) \<longrightarrow>
            generateMoodboard ai b m p
              = Inl (ErrorObj (moodboard_prefix @ moodboard_no_image)))"
proof (cases "first_parts r")
  case None
  from callGeminiModel_no_parts[where ai = ai, OF assms None]
  have "isl (generateMoodboard ai b m p)"
    by (auto simp: generateMoodboard_def)
  with None show ?thesis by (simp add: reply_parts_def)
next
  case (Some parts)
  have ps: "reply_parts r = parts" by (simp add: reply_parts_def Some)
  have run: "generateMoodboard ai b m p =
      (if \<not> truthy_opt (last_image parts)
       then Inl (ErrorObj (moodboard_prefix @ moodboard_no_image))
       else Inr \<lparr> imageUrl = last_image parts, result_text = last_text parts, colors = [] \<rparr>)"
    by (simp add: generateMoodboard_def callGeminiModel_parts[where ai = ai, OF assms Some] image_text_loop_eq)
  show ?thesis
  proof (cases "\<exists>q\<in>set parts. is_image_part q")
    case True
    then have t: "truthy_opt (last_image parts)" by (simp add: last_image_truthy)
    then obtain url where u: "last_image parts = Some url" by (cases "last_image parts") auto
    from True t u show ?thesis
      unfolding ps by (auto simp: run last_text_None)
  next
    case False
    then have "\<not> truthy_opt (last_image parts)" by (simp add: last_image_truthy)
    with False show ?thesis unfolding ps by (auto simp: run)
  qed
qed

theorem C9_generateMoodboard_witness:
  "passes_checks (response_with [png_part])
   \<and> is_image_part png_part \<and> \<not> is_text_part png_part
   \<and> generateMoodboard (reply_with [png_part]) (lit ''/9j/4AAQ'') (lit ''image/jpeg'') (lit ''board'')
       = Inr \<lparr> imageUrl = Some (lit ''data:image/png;base64,iVBORw0KGgo=''),
               result_text = None, colors = [] \<rparr>
   \<and> \<not> is_image_part refusal_part
   \<and> generateMoodboard (reply_with [refusal_part]) (lit ''/9j/4AAQ'') (lit ''image/jpeg'')
       (lit ''board'')
       = Inl (ErrorObj (moodboard_prefix @ moodboard_no_image))
   \<and> passes_checks stopped_response
   \<and> reply_parts stopped_response = []
   \<and> isl (generateMoodboard stopped_reply (lit ''/9j/4AAQ'') (lit ''image/jpeg'') (lit ''board''))"
proof -
  have i: "is_image_part png_part" and t: "\<not> is_text_part png_part"
    by (simp_all add: is_image_part_def is_text_part_def png_part_def)
  have r: "\<not> is_image_part refusal_part"
    by (simp add: is_image_part_def refusal_part_def truthy_str_def)
  note w1 = C9_generateMoodboard[where ai = "reply_with [png_part]"
      and r = "response_with [png_part]"
      and b = "lit ''/9j/4AAQ''" and m = "lit ''image/jpeg''" and p = "lit ''board''",
      OF _ passes_checks_response_with, unfolded reply_parts_response_with]
  note w2 = C9_generateMoodboard[where ai = "reply_with [refusal_part]"
      and r = "response_with [refusal_part]"
      and b = "lit ''/9j/4AAQ''" and m = "lit ''image/jpeg''" and p = "lit ''board''",
      OF _ passes_checks_response_with, unfolded reply_parts_response_with]
  note w3 = C9_generateMoodboard[where ai = stopped_reply and r = stopped_response
      and b = "lit ''/9j/4AAQ''" and m = "lit ''image/jpeg''" and p = "lit ''board''",
      OF _ stopped_response_facts(1), unfolded stopped_response_facts(3)]
  from w1 i have ok: "\<not> isl (generateMoodboard (reply_with [png_part]) (lit ''/9j/4AAQ'')
      (lit ''image/jpeg'') (lit ''board''))"
    by (simp add: reply_with_def)
  have v: "generateMoodboard (reply_with [png_part]) (lit ''/9j/4AAQ'') (lit ''image/jpeg'')
      (lit ''board'')
       = Inr \<lparr> imageUrl = Some (lit ''data:image/png;base64,iVBORw0KGgo=''),
               result_text = None, colors = [] \<rparr>"
    using ok
    by (simp add: generateMoodboard_def callGeminiModel_reply_with image_text_loop_def
        image_text_step_def png_part_def dataUrl_def truthy_str_def)
  from w2 r have e: "generateMoodboard (reply_with [refusal_part]) (lit ''/9j/4AAQ'')
      (lit ''image/jpeg'') (lit ''board'')
       = Inl (ErrorObj (moodboard_prefix @ moodboard_no_image))"
    by (simp add: reply_with_def first_parts_response_with)
  from w3 have s: "isl (generateMoodboard stopped_reply (lit ''/9j/4AAQ'') (lit ''image/jpeg'')
      (lit ''board''))"
    by (simp add: stopped_reply_def)
  from i t v r e s stopped_response_facts(1,3) passes_checks_response_with
  show ?thesis by blast
qed

section \<open>generateCompositeImage: the two failures\<close>




section \<open>A new mood-board generation and the result slots\<close>

lemma moodboard_reset_slots:
  "moodboard_outputs_cleared (moodboard_reset s)
   \<and> compositeResultUrl (moodboard_reset s) = compositeResultUrl s
   \<and> compositeError (moodboard_reset s) = compositeError s"
  by (simp add: moodboard_outputs_cleared_def moodboard_reset_def)

lemma moodboard_settle_composite:
  "compositeResultUrl (moodboard_settle s r) = compositeResultUrl s
   \<and> compositeError (moodboard_settle s r) = compositeError s"
  by (simp add: moodboard_settle_def split: sum.splits)

text \<open>
  Claim C1, as the code has it. With a primary image present and read, one run of
  \<open>handleGenerateMoodboard\<close> first resets the generated result, the element details, the
  click position, the similar items and the mood-board, element, enhancement and
  find-similar errors, then issues the request from that state; the composite result and
  the composite error are left as they were, before the request and after it.
\<close>

theorem C1_generation_keeps_composite:
  assumes "primaryImageFile s = Some f" and "reader f = Some base64Data"
  shows "handleGenerateMoodboard template reader ai s
           = moodboard_settle (moodboard_reset s)
               (generateMoodboard ai base64Data (file_type f)
                  (finalPrompt template (imageType s) (customImageType s) (userPrompt s)))
       \<and> moodboard_outputs_cleared (moodboard_reset s)
       \<and> compositeResultUrl (moodboard_reset s) = compositeResultUrl s
       \<and> compositeError (moodboard_reset s) = compositeError s
       \<and> compositeResultUrl (handleGenerateMoodboard template reader ai s)
           = compositeResultUrl s
       \<and> compositeError (handleGenerateMoodboard template reader ai s)
           = compositeError s"
proof -
  have run: "handleGenerateMoodboard template reader ai s
           = moodboard_settle (moodboard_reset s)
               (generateMoodboard ai base64Data (file_type f)
                  (finalPrompt template (imageType s) (customImageType s) (userPrompt s)))"
    by (simp add: handleGenerateMoodboard_def assms)
  show ?thesis
    unfolding run using moodboard_reset_slots[of s]
    by (simp add: moodboard_settle_composite)
qed

theorem C1_generation_keeps_composite_witness:
  "primaryImageFile tried_on_state = Some look_file
   \<and> reader_ok look_file = Some (lit ''/9j/4AAQ'')
   \<and> moodboard_outputs_cleared (moodboard_reset tried_on_state)
   \<and> compositeResultUrl (handleGenerateMoodboard [] reader_ok (reply_with [png_part]) tried_on_state)
       = Some (lit ''data:image/png;base64,iVBORw0KGgo='')"
proof -
  have f: "primaryImageFile tried_on_state = Some look_file"
    by (simp add: tried_on_state_def initial_state_def)
  have r: "reader_ok look_file = Some (lit ''/9j/4AAQ'')"
    by (simp add: reader_ok_def)
  have c: "compositeResultUrl tried_on_state = Some (lit ''data:image/png;base64,iVBORw0KGgo='')"
    by (simp add: tried_on_state_def initial_state_def)
  note w = C1_generation_keeps_composite[where s = tried_on_state and f = look_file
      and reader = reader_ok and base64Data = "lit ''/9j/4AAQ''" and template = "[]"
      and ai = "reply_with [png_part]", OF f r]
  from w have a: "moodboard_outputs_cleared (moodboard_reset tried_on_state)"
    by blast
  from w have b: "compositeResultUrl
      (handleGenerateMoodboard [] reader_ok (reply_with [png_part]) tried_on_state)
      = compositeResultUrl tried_on_state"
    by blast
  show ?thesis using f r a b c by simp
qed

text \<open>
  Claim C1 as stated fails: after a try-on produced a composite image, a new mood-board
  generation issues its request, and finishes, with the composite result still in place.
\<close>

theorem C1_stale_composite_counterexample:
  "primaryImageFile tried_on_state \<noteq> None
   \<and> \<not> outputs_cleared (moodboard_reset tried_on_state)
   \<and> compositeResultUrl (moodboard_reset tried_on_state)
       = Some (lit ''data:image/png;base64,iVBORw0KGgo='')
   \<and> compositeResultUrl (handleGenerateMoodboard [] reader_ok (reply_with [png_part]) tried_on_state)
       = Some (lit ''data:image/png;base64,iVBORw0KGgo='')"
  by (simp add: tried_on_state_def initial_state_def moodboard_reset_def outputs_cleared_def
      handleGenerateMoodboard_def reader_ok_def moodboard_settle_def split: sum.splits)

section \<open>The prompt of a FOOD upload\<close>

lemma trim_blank: "\<forall>c\<in>set s. is_ws c \<Longrightarrow> trim s = []"
proof -
  assume "\<forall>c\<in>set s. is_ws c"
  then have e: "dropWhile is_ws s = []" by simp
  show ?thesis unfolding trim_def e by simp
qed

text \<open>
  Claim C8. With the image type \<open>FOOD\<close> and user instructions that are empty or
  whitespace only, the prompt \<open>handleGenerateMoodboard\<close> hands to \<open>generateMoodboard\<close> is
  the header that names the category \<open>FOOD\<close>, two line feeds and the fixed template, with
  nothing after the template: no \<open>ADDITIONAL USER INSTRUCTIONS\<close> section.
\<close>

theorem C8_food_prompt:
  assumes "imageType s = lit ''FOOD''" and "\<forall>c\<in>set (userPrompt s). is_ws c"
    and "primaryImageFile s = Some f" and "reader f = Some base64Data"
  shows "finalPrompt template (imageType s) (customImageType s) (userPrompt s)
           = lit ''ATTENTION: The uploaded image is categorized as FOOD. Prioritize the specific rules for this category in your analysis.\<newline>\<newline>''
             @ template
       \<and> handleGenerateMoodboard template reader ai s
           = moodboard_settle (moodboard_reset s)
               (generateMoodboard ai base64Data (file_type f)
                  (lit ''ATTENTION: The uploaded image is categorized as FOOD. Prioritize the specific rules for this category in your analysis.\<newline>\<newline>''
                   @ template))"
proof -
  have p: "finalPrompt template (imageType s) (customImageType s) (userPrompt s)
           = lit ''ATTENTION: The uploaded image is categorized as FOOD. Prioritize the specific rules for this category in your analysis.\<newline>\<newline>''
             @ template"
    by (simp add: finalPrompt_def assms(1) trim_blank[OF assms(2)] truthy_str_def)
  show ?thesis
    unfolding p by (simp add: handleGenerateMoodboard_def assms(3,4) p)
qed

theorem C8_food_prompt_witness:
  "imageType food_state = lit ''FOOD''
   \<and> userPrompt food_state = lit '' \<newline> ''
   \<and> finalPrompt (lit ''TEMPLATE'') (imageType food_state) (customImageType food_state)
        (userPrompt food_state)
       = lit ''ATTENTION: The uploaded image is categorized as FOOD. Prioritize the specific rules for this category in your analysis.\<newline>\<newline>TEMPLATE''"
proof -
  have i: "imageType food_state = lit ''FOOD''"
    and u: "userPrompt food_state = lit '' \<newline> ''"
    and f: "primaryImageFile food_state = Some look_file"
    by (simp_all add: food_state_def initial_state_def)
  have ws: "\<forall>c\<in>set (userPrompt food_state). is_ws c"
    unfolding u by (simp add: is_ws_def)
  have r: "reader_ok look_file = Some (lit ''/9j/4AAQ'')"
    by (simp add: reader_ok_def)
  note w = C8_food_prompt[where s = food_state and f = look_file and reader = reader_ok
      and base64Data = "lit ''/9j/4AAQ''" and template = "lit ''TEMPLATE''"
      and ai = "reply_with [png_part]", OF i ws f r]
  from w have "finalPrompt (lit ''TEMPLATE'') (imageType food_state) (customImageType food_state)
        (userPrompt food_state)
       = lit ''ATTENTION: The uploaded image is categorized as FOOD. Prioritize the specific rules for this category in your analysis.\<newline>\<newline>'' @ lit ''TEMPLATE''"
    by blast
  with i u show ?thesis by simp
qed

section \<open>findSimilarItems: the query and the empty reply\<close>

text \<open>
  Claim C6. \<open>findSimilarItems\<close> sends the query chosen by \<open>elementType\<close>: the e-commerce
  query for \<open>product\<close> and \<open>fashion_item\<close>, the Google Maps location query for
  \<open>architectural_feature\<close>, the recipe query for \<open>food_item\<close>, the art-platform query
  for \<open>design_element\<close>, and the generic query for every other tag. Sending is read off
  the result: for every service, what \<open>findSimilarItems\<close> returns is made from the
  service's answer to the request that carries this query (to the model
  \<open>gemini-2.5-flash\<close>, with the search tool) and from nothing else: a rejection is thrown
  again, a reply gives the items of its grounding chunks. For every reply without
  grounding chunks (no candidate, no grounding metadata, no chunk list, or an empty one)
  it returns the empty list and does not throw.
\<close>

theorem C6_findSimilarItems:
  \<open>\<exists>query.
     (elementType d = lit ''product'' \<or> elementType d = lit ''fashion_item'' \<longrightarrow>
        query = lit ''Find the product named "'' @ details_name d @
          lit ''" on e-commerce websites like Amazon, Myntra, H&M, or other relevant online stores. Prioritize direct shopping links.'')
   \<and> (elementType d = lit ''architectural_feature'' \<longrightarrow>
        query = lit ''Find the location of the building or landmark known as "'' @
          details_name d @ lit ''" on Google Maps. Provide a direct link to the location.'')
   \<and> (elementType d = lit ''food_item'' \<longrightarrow>
        query = lit ''Find recipes for "'' @ details_name d @
          lit ''" from Zomato, food wikis, or popular recipe blogs.'')
   \<and> (elementType d = lit ''design_element'' \<longrightarrow>
        query = lit ''Find similar artwork or designs to "'' @ details_name d @
          lit ''" on Pinterest, Behance, or Dribbble.'')
   \<and> (elementType d \<notin> {lit ''product'', lit ''fashion_item'', lit ''architectural_feature'',
                          lit ''food_item'', lit ''design_element''} \<longrightarrow>
        query = lit ''Find more information and relevant links for "'' @
          details_name d @ lit ''".'')
   \<and> (\<forall>ai. findSimilarItems ai d =
         (case ai \<lparr> model = lit ''gemini-2.5-flash'', contents = PromptContents query,
                     config = \<lparr> responseModalities = None, tools = Some [GoogleSearch] \<rparr> \<rparr> of
            Rejects e \<Rightarrow> Inl (rethrow similar_prefix similar_unknown e)
          | Resolves response \<Rightarrow>
              (case response_chunks response of
                 None \<Rightarrow> Inr []
               | Some chunks \<Rightarrow>
                   Inr (filter (\<lambda>item. truthy_str (uri item)) (map chunk_item chunks)))))
   \<and> (\<forall>ai response.
         ai \<lparr> model = lit ''gemini-2.5-flash'', contents = PromptContents query,
               config = \<lparr> responseModalities = None, tools = Some [GoogleSearch] \<rparr> \<rparr>
           = Resolves response
         \<and> (response_chunks response = None \<or> response_chunks response = Some []) \<longrightarrow>
         findSimilarItems ai d = Inr [])\<close>
proof -
  have run: "findSimilarItems ai d =
         (case ai \<lparr> model = lit ''gemini-2.5-flash'',
                     contents = PromptContents (similar_prompt d),
                     config = \<lparr> responseModalities = None, tools = Some [GoogleSearch] \<rparr> \<rparr> of
            Rejects e \<Rightarrow> Inl (rethrow similar_prefix similar_unknown e)
          | Resolves response \<Rightarrow>
              (case response_chunks response of
                 None \<Rightarrow> Inr []
               | Some chunks \<Rightarrow>
                   Inr (filter (\<lambda>item. truthy_str (uri item)) (map chunk_item chunks))))" for ai
    by (simp add: findSimilarItems_def similar_request_def
        split: api_outcome.splits option.splits)
  have none: "findSimilarItems ai d = Inr []"
    if "ai \<lparr> model = lit ''gemini-2.5-flash'', contents = PromptContents (similar_prompt d),
               config = \<lparr> responseModalities = None, tools = Some [GoogleSearch] \<rparr> \<rparr>
           = Resolves response"
      and "response_chunks response = None \<or> response_chunks response = Some []"
    for ai response
    using that by (auto simp: run)
  have a: \<open>elementType d = lit ''product'' \<or> elementType d = lit ''fashion_item'' \<longrightarrow>
        similar_prompt d = lit ''Find the product named "'' @ details_name d @
          lit ''" on e-commerce websites like Amazon, Myntra, H&M, or other relevant online stores. Prioritize direct shopping links.''\<close>
    by (auto simp: similar_prompt_def)
  have b: \<open>elementType d = lit ''architectural_feature'' \<longrightarrow>
        similar_prompt d = lit ''Find the location of the building or landmark known as "'' @
          details_name d @ lit ''" on Google Maps. Provide a direct link to the location.''\<close>
    by (auto simp: similar_prompt_def)
  have c: \<open>elementType d = lit ''food_item'' \<longrightarrow>
        similar_prompt d = lit ''Find recipes for "'' @ details_name d @
          lit ''" from Zomato, food wikis, or popular recipe blogs.''\<close>
    by (auto simp: similar_prompt_def)
  have e: \<open>elementType d = lit ''design_element'' \<longrightarrow>
        similar_prompt d = lit ''Find similar artwork or designs to "'' @ details_name d @
          lit ''" on Pinterest, Behance, or Dribbble.''\<close>
    by (auto simp: similar_prompt_def)
  have f: \<open>elementType d \<notin> {lit ''product'', lit ''fashion_item'', lit ''architectural_feature'',
                          lit ''food_item'', lit ''design_element''} \<longrightarrow>
        similar_prompt d = lit ''Find more information and relevant links for "'' @
          details_name d @ lit ''".''\<close>
    by (auto simp: similar_prompt_def)
  show ?thesis
    by (rule exI[of _ "similar_prompt d"]) (use a b c e f run none in blast)
qed

theorem C6_findSimilarItems_witness:
  \<open>elementType tower_details = lit ''architectural_feature''
   \<and> details_name tower_details = lit ''Eiffel Tower''
   \<and> findSimilarItems (maps_only None) tower_details = Inr []
   \<and> findSimilarItems (maps_only (Some [])) tower_details = Inr []
   \<and> findSimilarItems (maps_only (Some sample_chunks)) tower_details
       = Inr [\<lparr> title = lit ''Untitled'', uri = lit ''https://maps.example/tower'' \<rparr>,
              \<lparr> title = lit ''Tower'', uri = lit ''https://t.example'' \<rparr>]
   \<and> findSimilarItems (\<lambda>request. Rejects (ErrorObj (lit ''offline''))) tower_details
       = Inl (ErrorObj (lit ''Failed to find similar items: offline''))\<close>
proof -
  have t: "elementType tower_details = lit ''architectural_feature''"
    and n: "details_name tower_details = lit ''Eiffel Tower''"
    by (simp_all add: tower_details_def)
  from C6_findSimilarItems[of tower_details] t n obtain query where
    q: \<open>query = lit ''Find the location of the building or landmark known as "Eiffel Tower" on Google Maps. Provide a direct link to the location.''\<close>
    and run: "\<And>ai. findSimilarItems ai tower_details =
         (case ai \<lparr> model = lit ''gemini-2.5-flash'', contents = PromptContents query,
                     config = \<lparr> responseModalities = None, tools = Some [GoogleSearch] \<rparr> \<rparr> of
            Rejects e \<Rightarrow> Inl (rethrow similar_prefix similar_unknown e)
          | Resolves response \<Rightarrow>
              (case response_chunks response of
                 None \<Rightarrow> Inr []
               | Some chunks \<Rightarrow>
                   Inr (filter (\<lambda>item. truthy_str (uri item)) (map chunk_item chunks))))"
    by auto
  have a: "findSimilarItems (maps_only None) tower_details = Inr []"
    unfolding run q
    by (simp add: maps_only_def tower_request_def grounded_reply_def response_chunks_def)
  have b: "findSimilarItems (maps_only (Some [])) tower_details = Inr []"
    unfolding run q
    by (simp add: maps_only_def tower_request_def grounded_reply_def response_chunks_def)
  have c: "findSimilarItems (maps_only (Some sample_chunks)) tower_details
       = Inr [\<lparr> title = lit ''Untitled'', uri = lit ''https://maps.example/tower'' \<rparr>,
              \<lparr> title = lit ''Tower'', uri = lit ''https://t.example'' \<rparr>]"
    unfolding run q
    by (simp add: maps_only_def tower_request_def grounded_reply_def response_chunks_def
        sample_chunks_def chunk_item_def truthy_str_def)
  have d: "findSimilarItems (\<lambda>request. Rejects (ErrorObj (lit ''offline''))) tower_details
       = Inl (ErrorObj (lit ''Failed to find similar items: offline''))"
    unfolding run by (simp add: similar_prefix_def)
  from t n a b c d show ?thesis by blast
qed

section \<open>findSimilarItems: the items returned\<close>

lemma truthy_optE: "truthy_opt x \<Longrightarrow> \<exists>y. x = Some y \<and> y \<noteq> []"
  by (cases x) (auto simp: truthy_str_def)

lemma chunk_item_uri: "truthy_str (uri (chunk_item chunk)) \<longleftrightarrow> chunk_has_uri chunk"
  by (cases "web chunk")
     (auto simp: chunk_item_def chunk_has_uri_def truthy_str_def dest: truthy_optE)

lemma filter_map_chunk_item:
  "filter (\<lambda>item. truthy_str (uri item)) (map chunk_item chunks)
     = map chunk_item (filter chunk_has_uri chunks)"
  by (induction chunks) (simp_all add: chunk_item_uri)

lemma findSimilarItems_resolves:
  assumes "ai (similar_request d) = Resolves response"
  shows "findSimilarItems ai d =
           Inr (case response_chunks response of
                  None \<Rightarrow> []
                | Some chunks \<Rightarrow> map chunk_item (filter chunk_has_uri chunks))"
proof (cases "response_chunks response")
  case None
  with assms show ?thesis by (simp add: findSimilarItems_def)
next
  case (Some chunks)
  show ?thesis
  proof (cases "chunks = []")
    case True
    with Some assms show ?thesis by (simp add: findSimilarItems_def)
  next
    case False
    with Some assms show ?thesis
      by (simp add: findSimilarItems_def filter_map_chunk_item del: filter.simps list.map)
  qed
qed

text \<open>
  Claim C10. Every item \<open>findSimilarItems\<close> returns has a non-empty \<open>uri\<close>: the list is
  made of the chunks with a truthy web uri, in their order, so chunks whose web uri is
  missing or empty are left out; a chunk with a uri and no title is kept, with the title
  \<open>Untitled\<close>.
\<close>

theorem C10_similar_items_have_uri:
  assumes "findSimilarItems ai d = Inr items"
  shows "(\<forall>item\<in>set items. uri item \<noteq> [])
       \<and> (\<forall>response chunks. ai (similar_request d) = Resolves response
             \<and> response_chunks response = Some chunks \<longrightarrow>
           items = map chunk_item (filter chunk_has_uri chunks)
           \<and> (\<forall>chunk\<in>set chunks. \<forall>w u. web chunk = Some w \<and> web_uri w = Some u \<and> u \<noteq> []
                 \<and> web_title w = None \<longrightarrow>
               \<lparr> title = lit ''Untitled'', uri = u \<rparr> \<in> set items))"
proof (cases "ai (similar_request d)")
  case (Rejects e)
  with assms show ?thesis by (simp add: findSimilarItems_def)
next
  case (Resolves response)
  show ?thesis
  proof (cases "response_chunks response")
    case None
    with Resolves assms show ?thesis by (auto simp: findSimilarItems_def)
  next
    case (Some chunks)
    with findSimilarItems_resolves[of ai d response, OF Resolves] assms
    have items: "items = map chunk_item (filter chunk_has_uri chunks)"
      by simp
    have nonempty: "\<forall>item\<in>set items. uri item \<noteq> []"
      unfolding items using chunk_item_uri by (auto simp: truthy_str_def)
    have untitled: "\<forall>chunk\<in>set chunks. \<forall>w u. web chunk = Some w \<and> web_uri w = Some u \<and> u \<noteq> []
                 \<and> web_title w = None \<longrightarrow>
               \<lparr> title = lit ''Untitled'', uri = u \<rparr> \<in> set items"
    proof (intro ballI allI impI)
      fix chunk w u
      assume c: "chunk \<in> set chunks"
        and h: "web chunk = Some w \<and> web_uri w = Some u \<and> u \<noteq> [] \<and> web_title w = None"
      then have "chunk_has_uri chunk"
        by (simp add: chunk_has_uri_def truthy_str_def)
      moreover from h have "chunk_item chunk = \<lparr> title = lit ''Untitled'', uri = u \<rparr>"
        by (simp add: chunk_item_def truthy_str_def)
      ultimately show "\<lparr> title = lit ''Untitled'', uri = u \<rparr> \<in> set items"
        unfolding items using c by force
    qed
    from Resolves Some items nonempty untitled show ?thesis by simp
  qed
qed

theorem C10_similar_items_have_uri_witness:
  "findSimilarItems (grounded_reply (Some sample_chunks)) tower_details
     = Inr [\<lparr> title = lit ''Untitled'', uri = lit ''https://maps.example/tower'' \<rparr>,
            \<lparr> title = lit ''Tower'', uri = lit ''https://t.example'' \<rparr>]
   \<and> [] \<notin> uri ` set [\<lparr> title = lit ''Untitled'', uri = lit ''https://maps.example/tower'' \<rparr>,
                       \<lparr> title = lit ''Tower'', uri = lit ''https://t.example'' \<rparr>]"
proof -
  have v: "findSimilarItems (grounded_reply (Some sample_chunks)) tower_details
     = Inr [\<lparr> title = lit ''Untitled'', uri = lit ''https://maps.example/tower'' \<rparr>,
            \<lparr> title = lit ''Tower'', uri = lit ''https://t.example'' \<rparr>]"
    by (simp add: findSimilarItems_def grounded_reply_def response_chunks_def sample_chunks_def
        chunk_item_def truthy_str_def)
  from C10_similar_items_have_uri[OF v] have a: "\<forall>item\<in>set
      [\<lparr> title = lit ''Untitled'', uri = lit ''https://maps.example/tower'' \<rparr>,
       \<lparr> title = lit ''Tower'', uri = lit ''https://t.example'' \<rparr>]. uri item \<noteq> []"
    by (rule conjunct1)
  then have "[] \<notin> uri ` set
      [\<lparr> title = lit ''Untitled'', uri = lit ''https://maps.example/tower'' \<rparr>,
       \<lparr> title = lit ''Tower'', uri = lit ''https://t.example'' \<rparr>]"
    by auto
  with v show ?thesis by (rule conjI)
qed

section \<open>The marker of a click\<close>

subsection \<open>Rounding to a double\<close>













subsection \<open>The centre of the marker\<close>









section \<open>parseJsonFromMarkdown: fenced and plain text\<close>

lemma ticks_facts: "ticks \<noteq> []" "\<not> is_ws (hd ticks)" "length ticks = 3"
  by (simp_all add: ticks_def is_ws_def)

lemma fence_regex_split:
  "fence_regex = Seq (Lit ticks) (Seq (Opt (Group 1 (Lit (lit ''json'')))) fence_rest)"
  by (simp add: fence_regex_def fence_rest_def ticks_def)

text \<open>Optional whitespace, then a literal that does not start with whitespace.\<close>

lemma not_ws_backtick: "\<not> is_ws 96"
  by (simp add: is_ws_def)

lemma star_greedy_ws_lit:
  assumes "f \<noteq> []" and "\<not> is_ws (hd f)"
  shows "star_greedy ClsWs inp (\<lambda>r. if take (length f) r = f then k r else None)
   = (if take (length f) (dropWhile is_ws inp) = f then k (dropWhile is_ws inp) else None)"
proof (induction inp)
  case Nil
  show ?case by simp
next
  case (Cons x xs)
  show ?case
  proof (cases "is_ws x")
    case True
    with assms have "take (length f) (x # xs) \<noteq> f"
      by (cases f) auto
    with True Cons show ?thesis by (auto split: option.splits)
  next
    case False
    then show ?thesis by simp
  qed
qed

lemma star_greedy_ws_ticks:
  "star_greedy ClsWs inp (\<lambda>r. if take 3 r = ticks then k r else None)
   = (if take 3 (dropWhile is_ws inp) = ticks then k (dropWhile is_ws inp) else None)"
  using star_greedy_ws_lit[OF ticks_facts(1,2), of inp k] unfolding ticks_facts(3) .

lemma rmatch_fence_rest:
  "rmatch fence_rest inp caps k =
     star_greedy ClsWs inp (\<lambda>rest.
       plus_lazy ClsAny rest (\<lambda>rest'.
         if closes rest'
         then k (drop 3 (dropWhile is_ws rest'))
                (caps(2 \<mapsto> take (length rest - length rest') rest))
         else None))"
  unfolding fence_rest_def rmatch.simps closes_def ticks_facts(3)
  by (simp only: star_greedy_ws_ticks)

lemma star_lazy_first:
  assumes "\<forall>j < length pre. K (drop j (pre @ post)) = None" and "K post = Some v"
  shows "star_lazy ClsAny (pre @ post) K = Some v"
  using assms
proof (induction pre)
  case Nil
  then show ?case by (cases post) simp_all
next
  case (Cons x pre)
  from Cons.prems(1) have "K (x # pre @ post) = None" by force
  moreover have "\<forall>j < length pre. K (drop j (pre @ post)) = None"
  proof (intro allI impI)
    fix j assume "j < length pre"
    then have "Suc j < length (x # pre)" by simp
    with Cons.prems(1) have "K (drop (Suc j) ((x # pre) @ post)) = None" by blast
    then show "K (drop j (pre @ post)) = None" by simp
  qed
  ultimately show ?case using Cons.IH Cons.prems(2) by simp
qed

lemma star_greedy_max:
  assumes "K (dropWhile is_ws inp) = Some v"
  shows "star_greedy ClsWs inp K = Some v"
  using assms by (induction inp) auto

lemma star_greedy_back_one:
  assumes "\<forall>c\<in>set w. is_ws c" and "is_ws x" and "rest = [] \<or> \<not> is_ws (hd rest)"
    and "K rest = None" and "K (x # rest) = Some v"
  shows "star_greedy ClsWs (w @ x # rest) K = Some v"
  using assms by (induction w) (cases rest; auto)+

lemma contains_fence_iff: "contains_fence s \<longleftrightarrow> (\<exists>a b. s = a @ ticks @ b)"
proof
  assume "contains_fence s"
  then show "\<exists>a b. s = a @ ticks @ b"
  proof (induction s)
    case Nil
    then show ?case by simp
  next
    case (Cons x xs)
    show ?case
    proof (cases "take 3 (x # xs) = ticks")
      case True
      then have "x # xs = [] @ ticks @ drop 3 (x # xs)"
        by (metis append_Nil append_take_drop_id)
      then show ?thesis by blast
    next
      case False
      with Cons.prems have "contains_fence xs" by (auto simp: ticks_def)
      with Cons.IH obtain a b where "xs = a @ ticks @ b" by blast
      then have "x # xs = (x # a) @ ticks @ b" by simp
      then show ?thesis by blast
    qed
  qed
next
  assume "\<exists>a b. s = a @ ticks @ b"
  then obtain a b where s: "s = a @ ticks @ b" by blast
  have "contains_fence (a @ ticks @ b)"
    by (induction a) (simp_all add: ticks_def)
  with s show "contains_fence s" by simp
qed

lemma contains_fence_mono: "contains_fence d \<Longrightarrow> contains_fence (a @ d @ b)"
proof -
  assume "contains_fence d"
  then obtain a' b' where "d = a' @ ticks @ b'" by (auto simp: contains_fence_iff)
  then have "a @ d @ b = (a @ a') @ ticks @ (b' @ b)" by simp
  then show ?thesis unfolding contains_fence_iff by blast
qed

lemma take3_contains_fence: "take 3 e = ticks \<Longrightarrow> contains_fence e"
  by (cases e) (simp_all add: ticks_def)

text \<open>No fence closes in front of text that ends in a visible code unit and has no fence.\<close>

lemma not_closes:
  assumes "d \<noteq> []" and "\<not> is_ws (last d)" and "\<not> contains_fence d"
    and "post \<noteq> []" and "is_ws (hd post)"
  shows "\<not> closes (d @ post)"
proof
  assume c: "closes (d @ post)"
  from assms(1,2) have "last d \<in> set d" "\<not> is_ws (last d)" by simp_all
  then have dw: "dropWhile is_ws (d @ post) = dropWhile is_ws d @ post"
    by (rule dropWhile_append1)
  define e where "e = dropWhile is_ws d"
  have "e \<noteq> []"
    unfolding e_def using assms(1,2) by (metis dropWhile_eq_Nil_conv last_in_set)
  have de: "d = takeWhile is_ws d @ e"
    unfolding e_def by simp
  from assms(4) obtain p ps where post: "post = p # ps" by (cases post) auto
  with assms(5) have "p \<noteq> 96" using not_ws_backtick by auto
  from c have "take 3 (dropWhile is_ws d @ post) = ticks"
    unfolding closes_def dw .
  then have t: "take 3 (e @ p # ps) = ticks"
    unfolding e_def post .
  show False
  proof (cases e)
    case Nil
    with \<open>e \<noteq> []\<close> show ?thesis by simp
  next
    case (Cons a e1)
    show ?thesis
    proof (cases e1)
      case Nil
      with Cons t \<open>p \<noteq> 96\<close> show ?thesis by (simp add: ticks_def)
    next
      case (Cons b e2)
      show ?thesis
      proof (cases e2)
        case Nil
        with \<open>e = a # e1\<close> \<open>e1 = b # e2\<close> t \<open>p \<noteq> 96\<close> show ?thesis by (simp add: ticks_def)
      next
        case (Cons c e3)
        with \<open>e = a # e1\<close> \<open>e1 = b # e2\<close> t have "take 3 e = ticks" by simp
        then have "contains_fence e" by (rule take3_contains_fence)
        then have "contains_fence (takeWhile is_ws d @ e @ [])" by (rule contains_fence_mono)
        with de assms(3) show ?thesis by simp
      qed
    qed
  qed
qed

lemma trim_split:
  "dropWhile is_ws s = trim s @ rev (takeWhile is_ws (rev (dropWhile is_ws s)))"
  unfolding trim_def
  by (metis rev_append rev_rev_ident takeWhile_dropWhile_id)

lemma trim_last: "trim s \<noteq> [] \<Longrightarrow> \<not> is_ws (last (trim s))"
proof -
  assume "trim s \<noteq> []"
  then have n: "dropWhile is_ws (rev (dropWhile is_ws s)) \<noteq> []" by (simp add: trim_def)
  then have "\<not> is_ws (hd (dropWhile is_ws (rev (dropWhile is_ws s))))" by (rule hd_dropWhile)
  with n show ?thesis by (simp add: trim_def last_rev)
qed

lemma trim_nonempty:
  assumes "\<exists>c\<in>set s. \<not> is_ws c"
  shows "trim s \<noteq> []"
proof -
  from assms obtain c where c: "c \<in> set s" "\<not> is_ws c" by blast
  then have "c \<in> set (dropWhile is_ws s)"
    by (metis (full_types) set_dropWhileD UnE set_append set_takeWhileD takeWhile_dropWhile_id)
  with c show ?thesis by (auto simp: trim_def dropWhile_eq_Nil_conv)
qed

lemma trim_hd: "trim s \<noteq> [] \<Longrightarrow> \<not> is_ws (hd (trim s))"
proof -
  assume n: "trim s \<noteq> []"
  then have "dropWhile is_ws s \<noteq> []"
    unfolding trim_def by (metis dropWhile.simps(1) rev.simps(1))
  then have h: "\<not> is_ws (hd (dropWhile is_ws s))" by (rule hd_dropWhile)
  from n trim_split[of s] have "hd (dropWhile is_ws s) = hd (trim s)"
    by (metis hd_append2)
  with h show ?thesis by simp
qed

lemma trim_trim: "trim (trim s) = trim s"
proof (cases "trim s = []")
  case True
  show ?thesis unfolding True by (simp add: trim_def)
next
  case False
  have 1: "dropWhile is_ws (trim s) = trim s"
    using False trim_hd[OF False] by (cases "trim s") simp_all
  have "rev (trim s) \<noteq> []" using False by simp
  moreover have "\<not> is_ws (hd (rev (trim s)))"
    using False trim_last[OF False] by (simp add: hd_rev)
  ultimately have 2: "dropWhile is_ws (rev (trim s)) = rev (trim s)"
    by (cases "rev (trim s)") simp_all
  show ?thesis
    by (simp add: trim_def[of "trim s"] 1 2)
qed

lemma is_ws_lf: "is_ws 10"
  by (simp add: is_ws_def)

lemma dropWhile_ticks: "dropWhile is_ws ticks = ticks"
  by (simp add: ticks_def is_ws_def)

lemma closes_after_ws: "\<forall>c\<in>set b. is_ws c \<Longrightarrow> dropWhile is_ws (b @ 10 # ticks) = ticks"
  by (simp add: is_ws_lf dropWhile_ticks)

text \<open>
  The rest of the pattern on the inside of a fenced block with visible text: group 2 is
  the text without the whitespace around it.
\<close>

lemma fence_rest_visible:
  assumes nf: "\<not> contains_fence s" and vis: "\<exists>c\<in>set s. \<not> is_ws c"
  shows "rmatch fence_rest (10 # s @ 10 # ticks) caps (\<lambda>rest c. Some (rest, c))
           = Some ([], caps(2 \<mapsto> trim s))"
proof -
  define b where "b = rev (takeWhile is_ws (rev (dropWhile is_ws s)))"
  define post where "post = b @ 10 # ticks"
  have split: "dropWhile is_ws s = trim s @ b"
    unfolding b_def by (rule trim_split)
  have ne: "trim s \<noteq> []"
    using vis by (rule trim_nonempty)
  then obtain x core where core: "trim s = x # core"
    by (cases "trim s") auto
  have bws: "\<forall>c\<in>set b. is_ws c"
    unfolding b_def by (auto dest: set_takeWhileD)
  have post_ne: "post \<noteq> []" and post_hd: "is_ws (hd post)"
    using bws by (cases b; simp add: post_def is_ws_lf)+
  from vis obtain c where "c \<in> set s" "\<not> is_ws c" by blast
  then have "dropWhile is_ws (s @ 10 # ticks) = dropWhile is_ws s @ 10 # ticks"
    by (rule dropWhile_append1)
  then have dw: "dropWhile is_ws (10 # s @ 10 # ticks) = x # core @ post"
    by (simp add: is_ws_lf split core post_def)
  define KK where "KK = (\<lambda>rest'. if closes rest'
      then Some (drop 3 (dropWhile is_ws rest'),
                 caps(2 \<mapsto> take (length (x # core @ post) - length rest') (x # core @ post)))
      else None)"
  have "dropWhile is_ws post = ticks"
    unfolding post_def using bws by (rule closes_after_ws)
  then have KKpost: "KK post = Some ([], caps(2 \<mapsto> x # core))"
    by (simp add: KK_def closes_def ticks_facts(3))
  have none: "\<forall>j < length core. KK (drop j (core @ post)) = None"
  proof (intro allI impI)
    fix j assume j: "j < length core"
    define d where "d = drop j core"
    have d_ne: "d \<noteq> []" using j by (simp add: d_def)
    have "core \<noteq> []" using j by auto
    then have "last d = last (trim s)"
      using j by (simp add: d_def core)
    with trim_last[OF ne] have d_last: "\<not> is_ws (last d)" by simp
    have "s = takeWhile is_ws s @ dropWhile is_ws s" by simp
    also have "dropWhile is_ws s = (x # take j core) @ d @ b"
      by (simp add: split core d_def)
    finally have "s = (takeWhile is_ws s @ x # take j core) @ d @ b" by simp
    with nf contains_fence_mono[of d "takeWhile is_ws s @ x # take j core" b]
    have d_nf: "\<not> contains_fence d" by auto
    have "\<not> closes (d @ post)"
      using d_ne d_last d_nf post_ne post_hd by (rule not_closes)
    moreover have "drop j (core @ post) = d @ post"
      using j by (simp add: d_def)
    ultimately show "KK (drop j (core @ post)) = None"
      by (simp add: KK_def)
  qed
  have lazy: "star_lazy ClsAny (core @ post) KK = Some ([], caps(2 \<mapsto> x # core))"
    using none KKpost by (rule star_lazy_first)
  have "plus_lazy ClsAny (dropWhile is_ws (10 # s @ 10 # ticks))
          (\<lambda>rest'. if closes rest'
             then Some (drop 3 (dropWhile is_ws rest'),
                        caps(2 \<mapsto> take (length (dropWhile is_ws (10 # s @ 10 # ticks))
                                              - length rest')
                                        (dropWhile is_ws (10 # s @ 10 # ticks))))
             else None)
        = Some ([], caps(2 \<mapsto> trim s))"
    unfolding dw using lazy by (simp add: KK_def core)
  then show ?thesis
    unfolding rmatch_fence_rest by (rule star_greedy_max)
qed

lemma fence_rest_blank:
  assumes "\<forall>c\<in>set s. is_ws c"
  shows "rmatch fence_rest (10 # s @ 10 # ticks) caps (\<lambda>rest c. Some (rest, c))
           = Some ([], caps(2 \<mapsto> [10]))"
proof -
  have w: "\<forall>c\<in>set (10 # s). is_ws c"
    using assms by (simp add: is_ws_lf)
  have r: "ticks = [] \<or> \<not> is_ws (hd ticks)"
    using ticks_facts(2) by simp
  have "star_greedy ClsWs ((10 # s) @ 10 # ticks)
          (\<lambda>rest. plus_lazy ClsAny rest (\<lambda>rest'.
             if closes rest'
             then Some (drop 3 (dropWhile is_ws rest'),
                        caps(2 \<mapsto> take (length rest - length rest') rest))
             else None))
        = Some ([], caps(2 \<mapsto> [10]))"
    using w is_ws_lf r
  proof (rule star_greedy_back_one)
    show "plus_lazy ClsAny ticks (\<lambda>rest'.
             if closes rest'
             then Some (drop 3 (dropWhile is_ws rest'),
                        caps(2 \<mapsto> take (length ticks - length rest') ticks))
             else None) = None"
      by (simp add: ticks_def closes_def is_ws_def)
    show "plus_lazy ClsAny (10 # ticks) (\<lambda>rest'.
             if closes rest'
             then Some (drop 3 (dropWhile is_ws rest'),
                        caps(2 \<mapsto> take (length (10 # ticks) - length rest') (10 # ticks)))
             else None) = Some ([], caps(2 \<mapsto> [10]))"
      by (simp add: ticks_def closes_def is_ws_def)
  qed
  then show ?thesis
    unfolding rmatch_fence_rest by simp
qed

lemma fence_rest_inside:
  assumes "\<not> contains_fence s"
  shows "\<exists>g. g \<noteq> [] \<and> trim g = trim s
             \<and> (\<forall>caps. rmatch fence_rest (10 # s @ 10 # ticks) caps (\<lambda>rest c. Some (rest, c))
                          = Some ([], caps(2 \<mapsto> g)))"
proof (cases "\<exists>c\<in>set s. \<not> is_ws c")
  case True
  with assms fence_rest_visible[of s] trim_nonempty[of s] trim_trim[of s]
  show ?thesis by blast
next
  case False
  then have b: "\<forall>c\<in>set s. is_ws c" by blast
  then have "trim s = []" by (rule trim_blank)
  moreover have "trim [10] = []" by (simp add: trim_def is_ws_def)
  ultimately show ?thesis using fence_rest_blank[OF b] by auto
qed

lemma rmatch_fence_regex_plain:
  "rmatch fence_regex (ticks @ 10 # u) caps k = rmatch fence_rest (10 # u) caps k"
  unfolding fence_regex_split by (simp add: ticks_facts(3))

lemma rmatch_fence_regex_json:
  assumes "rmatch fence_rest (10 # u) (caps(1 \<mapsto> lit ''json'')) k = Some v"
  shows "rmatch fence_regex (ticks @ lit ''json'' @ 10 # u) caps k = Some v"
  unfolding fence_regex_split using assms by (simp add: ticks_facts(3))

lemma match_here_fenced:
  assumes "\<not> contains_fence s" and "lang = [] \<or> lang = lit ''json''"
  shows "\<exists>m g. match_here fence_regex (fenced lang s) = Some m \<and> m 2 = Some g
               \<and> g \<noteq> [] \<and> trim g = trim s"
proof -
  obtain g where g: "g \<noteq> []" "trim g = trim s"
    "\<And>caps. rmatch fence_rest (10 # s @ 10 # ticks) caps (\<lambda>rest c. Some (rest, c))
               = Some ([], caps(2 \<mapsto> g))"
    using fence_rest_inside[OF assms(1)] by blast
  from assms(2) show ?thesis
  proof
    assume l: "lang = []"
    have f: "fenced lang s = ticks @ 10 # s @ 10 # ticks"
      by (simp add: fenced_def ticks_def l)
    have "rmatch fence_regex (fenced lang s) (\<lambda>_. None) (\<lambda>rest c. Some (rest, c))
            = Some ([], (\<lambda>_. None)(2 \<mapsto> g))"
      unfolding f rmatch_fence_regex_plain by (rule g(3))
    with g(1,2) show ?thesis by (simp add: match_here_def)
  next
    assume l: "lang = lit ''json''"
    have f: "fenced lang s = ticks @ lit ''json'' @ 10 # s @ 10 # ticks"
      by (simp add: fenced_def ticks_def l)
    have "rmatch fence_regex (fenced lang s) (\<lambda>_. None) (\<lambda>rest c. Some (rest, c))
            = Some ([], ((\<lambda>_. None)(1 \<mapsto> lit ''json''))(2 \<mapsto> g))"
      unfolding f by (rule rmatch_fence_regex_json) (rule g(3))
    with g(1,2) show ?thesis by (simp add: match_here_def)
  qed
qed

lemma js_match_here: "match_here r inp = Some m \<Longrightarrow> js_match r inp = Some m"
  by (cases inp) simp_all

lemma match_here_needs_fence:
  "take 3 inp \<noteq> ticks \<Longrightarrow> match_here fence_regex inp = None"
  unfolding fence_regex_split by (simp add: match_here_def ticks_facts(3))

lemma js_match_no_fence: "\<not> contains_fence s \<Longrightarrow> js_match fence_regex s = None"
proof (induction s)
  case Nil
  show ?case by (simp add: match_here_needs_fence ticks_def)
next
  case (Cons x xs)
  then have "take 3 (x # xs) \<noteq> ticks" and "\<not> contains_fence xs"
    by (simp_all add: ticks_def)
  with Cons.IH show ?case by (simp add: match_here_needs_fence)
qed

lemma jsonString_plain: "\<not> contains_fence s \<Longrightarrow> jsonString s = trim s"
  by (simp add: jsonString_def js_match_no_fence)

lemma jsonString_fenced:
  assumes "\<not> contains_fence s" and "lang = [] \<or> lang = lit ''json''"
  shows "jsonString (fenced lang s) = trim s"
proof -
  from match_here_fenced[OF assms] obtain m g where
    m: "match_here fence_regex (fenced lang s) = Some m" "m 2 = Some g" "g \<noteq> []"
       "trim g = trim s"
    by blast
  from m(1) have "js_match fence_regex (fenced lang s) = Some m" by (rule js_match_here)
  with m(2,3,4) show ?thesis by (simp add: jsonString_def truthy_str_def)
qed

text \<open>
  Claim C4, as the code has it. For every text without a run of three backticks, and so
  for every serialization of a details object none of whose strings holds one, parsing
  the text wrapped in a fenced code block (with or without the tag \<open>json\<close>) gives the same
  value as parsing the text itself, whatever \<open>JSON.parse\<close> makes of it.
\<close>

theorem C4_fenced_parse:
  assumes "\<not> contains_fence s" and "lang = [] \<or> lang = lit ''json''"
  shows "parseJsonFromMarkdown parse (fenced lang s) = parseJsonFromMarkdown parse s"
  unfolding parseJsonFromMarkdown_def
  by (simp add: jsonString_fenced[OF assms] jsonString_plain[OF assms(1)])

section \<open>getElementDetails: the two failures\<close>

text \<open>The equations that evaluate \<open>JSON_parse\<close> and the fence pattern on a given text.\<close>

lemmas json_eval = JSON_parse_def skip_ws_def json_ws_def lex_number_def is_digit_def
  escape_char_def cons_fst_def build_object_def digits_val_def decimal_value_def to_number_def
  lex_escape_def

lemmas regex_eval = jsonString_def match_here_def fence_regex_def trim_def is_ws_def
  truthy_str_def fenced_def

text \<open>
  What \<open>getElementDetails\<close> does with a reply that passes the two checks and whose first
  candidate carries its parts: if no part is an image part, it throws the "failed to
  generate an image" message; if there is an image part and the text the loop keeps (that
  of the last text part), after the fence is stripped, is not JSON (\<open>JSON.parse\<close>
  throws), it throws the "not valid JSON" message. The two messages differ, with and
  without the prefix of the \<open>catch\<close> clause. This holds whatever function \<open>JSON.parse\<close>
  is.
\<close>

lemma getElementDetails_failures:
  assumes "ai \<lparr> model = flash_image_model,
                contents = PartsContents (image_and_text b m instructions),
                config = image_text_modalities \<rparr> = Resolves r"
    and "passes_checks r"
    and "first_parts r = Some parts"
  shows "((\<forall>q\<in>set parts. \<not> is_image_part q) \<longrightarrow>
            getElementDetails parse ai instructions b m
              = Inl (ErrorObj (details_prefix @ details_no_image)))
       \<and> ((\<exists>q\<in>set parts. is_image_part q) \<and> last_text parts = Some t
            \<and> parse (jsonString t) = None \<longrightarrow>
            getElementDetails parse ai instructions b m
              = Inl (ErrorObj (details_prefix @ details_not_json)))
       \<and> details_prefix @ details_no_image \<noteq> details_prefix @ details_not_json
       \<and> details_no_image \<noteq> details_not_json"
proof -
  have run: "getElementDetails parse ai instructions b m =
      (if \<not> truthy_opt (last_image parts)
       then Inl (ErrorObj (details_prefix @ details_no_image))
       else if \<not> truthy_json (last_details parse parts)
       then Inl (ErrorObj (details_prefix @ details_not_json))
       else Inr \<lparr> details_imageUrl = the (last_image parts),
                   details = last_details parse parts \<rparr>)"
    by (simp add: getElementDetails_def callGeminiModel_parts[where ai = ai, OF assms]
        details_loop_eq)
  have a: "(\<forall>q\<in>set parts. \<not> is_image_part q) \<longrightarrow>
            getElementDetails parse ai instructions b m
              = Inl (ErrorObj (details_prefix @ details_no_image))"
    using last_image_truthy[of parts] by (auto simp: run)
  have b: "(\<exists>q\<in>set parts. is_image_part q) \<and> last_text parts = Some t
            \<and> parse (jsonString t) = None \<longrightarrow>
            getElementDetails parse ai instructions b m
              = Inl (ErrorObj (details_prefix @ details_not_json))"
    using last_image_truthy[of parts]
    by (auto simp: run last_details_def parseJsonFromMarkdown_def)
  have c: "details_no_image \<noteq> details_not_json"
    by (simp add: details_no_image_def details_not_json_def)
  from a b c show ?thesis by simp
qed

lemma getElementDetails_failures_sample:
  "\<not> is_image_part apology_part
   \<and> getElementDetails JSON_parse (reply_with [apology_part]) (lit ''Describe it.'')
         (lit ''/9j/4AAQ'') (lit ''image/jpeg'')
       = Inl (ErrorObj (lit
           ''Failed to get element details: The AI failed to generate an image for the selected element.''))
   \<and> is_image_part png_part
   \<and> last_text [png_part, apology_part] = Some (lit ''Sorry, no details.'')
   \<and> JSON_parse (jsonString (lit ''Sorry, no details.'')) = None
   \<and> getElementDetails JSON_parse (reply_with [png_part, apology_part]) (lit ''Describe it.'')
         (lit ''/9j/4AAQ'') (lit ''image/jpeg'')
       = Inl (ErrorObj (lit
           ''Failed to get element details: The AI failed to provide valid details for the selected element. The response was not valid JSON.''))"
proof -
  have n: "\<not> is_image_part apology_part" and i: "is_image_part png_part"
    and tp: "is_text_part apology_part"
    by (simp_all add: is_image_part_def is_text_part_def apology_part_def png_part_def
        truthy_str_def)
  have lt: "last_text [png_part, apology_part] = Some (lit ''Sorry, no details.'')"
    using tp by (simp add: last_text_def apology_part_def)
  have js: "jsonString (lit ''Sorry, no details.'') = lit ''Sorry, no details.''"
    by (simp add: regex_eval)
  have np: "JSON_parse (jsonString (lit ''Sorry, no details.'')) = None"
    unfolding js by (simp add: json_eval)
  note w1 = getElementDetails_failures[where ai = "reply_with [apology_part]"
      and r = "response_with [apology_part]"
      and parts = "[apology_part]" and parse = JSON_parse
      and b = "lit ''/9j/4AAQ''" and m = "lit ''image/jpeg''"
      and instructions = "lit ''Describe it.''",
      OF _ passes_checks_response_with first_parts_response_with]
  note w2 = getElementDetails_failures[where ai = "reply_with [png_part, apology_part]"
      and r = "response_with [png_part, apology_part]"
      and parts = "[png_part, apology_part]" and parse = JSON_parse
      and t = "lit ''Sorry, no details.''"
      and b = "lit ''/9j/4AAQ''" and m = "lit ''image/jpeg''"
      and instructions = "lit ''Describe it.''",
      OF _ passes_checks_response_with first_parts_response_with]
  from w1 n have a: "getElementDetails JSON_parse (reply_with [apology_part])
         (lit ''Describe it.'') (lit ''/9j/4AAQ'') (lit ''image/jpeg'')
       = Inl (ErrorObj (lit
           ''Failed to get element details: The AI failed to generate an image for the selected element.''))"
    by (simp add: details_prefix_def details_no_image_def reply_with_def)
  from w2 i lt np have b: "getElementDetails JSON_parse (reply_with [png_part, apology_part])
         (lit ''Describe it.'') (lit ''/9j/4AAQ'') (lit ''image/jpeg'')
       = Inl (ErrorObj (lit
           ''Failed to get element details: The AI failed to provide valid details for the selected element. The response was not valid JSON.''))"
    by (simp add: details_prefix_def details_not_json_def reply_with_def)
  from n a i lt np b show ?thesis by blast
qed

text \<open>
  Claim C3 at a reply without content. The reply passes the two checks of
  \<open>callGeminiModel\<close>, its first candidate has no content, and so it has no image part.
  \<open>getElementDetails\<close> throws, and the message is not the "failed to generate an image"
  one: it is the prefix of the \<open>catch\<close> clause followed by the engine's text for the
  failed read of \<open>parts\<close>.
\<close>

theorem C3_reply_without_content:
  "passes_checks stopped_response
   \<and> reply_parts stopped_response = []
   \<and> getElementDetails JSON_parse stopped_reply (lit ''Describe it.'')
         (lit ''/9j/4AAQ'') (lit ''image/jpeg'')
       = Inl (ErrorObj (lit ''Failed to get element details: Cannot read properties of undefined (reading '' @ [39] @ lit ''parts'' @ [39] @ lit '')''))
   \<and> getElementDetails JSON_parse stopped_reply (lit ''Describe it.'')
         (lit ''/9j/4AAQ'') (lit ''image/jpeg'')
       \<noteq> Inl (ErrorObj (details_prefix @ details_no_image))"
  by (simp add: stopped_response_facts getElementDetails_def callGeminiModel_stopped_reply
      details_prefix_def details_no_image_def read_parts_of_undefined_def)

section \<open>parseJsonFromMarkdown: sample texts\<close>

lemma lamp_no_fence: "\<not> contains_fence lamp_text"
  by (simp add: lamp_text_def)

lemma lamp_parse:
  "parseJsonFromMarkdown JSON_parse lamp_text
     = JObj [(lit ''elementType'', JStr (lit ''product'')), (lit ''name'', JStr (lit ''Lamp''))]"
proof -
  have "jsonString lamp_text = lamp_text"
    using lamp_no_fence by (simp add: jsonString_plain lamp_text_def trim_def is_ws_def)
  then show ?thesis
    by (simp add: parseJsonFromMarkdown_def lamp_text_def json_eval)
qed

theorem C4_fenced_parse_witness:
  "\<not> contains_fence lamp_text
   \<and> parseJsonFromMarkdown JSON_parse (fenced (lit ''json'') lamp_text)
       = JObj [(lit ''elementType'', JStr (lit ''product'')), (lit ''name'', JStr (lit ''Lamp''))]
   \<and> parseJsonFromMarkdown JSON_parse (fenced [] lamp_text)
       = JObj [(lit ''elementType'', JStr (lit ''product'')), (lit ''name'', JStr (lit ''Lamp''))]"
  using C4_fenced_parse[OF lamp_no_fence, of "lit ''json''" JSON_parse]
    C4_fenced_parse[OF lamp_no_fence, of "[]" JSON_parse] lamp_no_fence lamp_parse
  by simp

lemma tea_mug_parse: "JSON_parse tea_mug_text = Some tea_mug"
  unfolding tea_mug_text_def tea_mug_def by (simp add: json_eval)

lemma tea_mug_plain: "jsonString tea_mug_text = tea_mug_text"
  unfolding tea_mug_text_def by (simp add: regex_eval)

lemma tea_mug_fenced:
  \<open>jsonString (fenced (lit ''json'') tea_mug_text) = lit ''{"elementType":"product","name":"Tea mug''\<close>
  unfolding tea_mug_text_def by (simp add: regex_eval)

lemma tea_mug_cut: \<open>JSON_parse (lit ''{"elementType":"product","name":"Tea mug'') = None\<close>
  by (simp add: json_eval)

text \<open>
  Claim C4 as stated fails for a details object with three backticks in a string: the
  plain serialization parses to the object, the one in a fenced block is cut at the
  inner backticks and parses to \<open>null\<close>.
\<close>

theorem C4_fence_in_string_counterexample:
  "JSON_parse tea_mug_text = Some tea_mug
   \<and> parseJsonFromMarkdown JSON_parse tea_mug_text = tea_mug
   \<and> parseJsonFromMarkdown JSON_parse (fenced (lit ''json'') tea_mug_text) = JNull
   \<and> tea_mug \<noteq> JNull"
proof -
  have a: "parseJsonFromMarkdown JSON_parse tea_mug_text = tea_mug"
    unfolding parseJsonFromMarkdown_def tea_mug_plain tea_mug_parse by simp
  have b: "parseJsonFromMarkdown JSON_parse (fenced (lit ''json'') tea_mug_text) = JNull"
    unfolding parseJsonFromMarkdown_def tea_mug_fenced tea_mug_cut by simp
  have c: "tea_mug \<noteq> JNull"
    by (simp add: tea_mug_def)
  from tea_mug_parse a b c show ?thesis by blast
qed

end
